theory Spec2Isabelle
  imports Complex_Main
begin

section \<open>The safety controller of the Lovable automation (safety.py)\<close>

text \<open>
  The development embeds the safety manager of \<^verbatim>\<open>safety.py\<close>, the workflow
  functions of \<^verbatim>\<open>api.py\<close>, \<^verbatim>\<open>remix.py\<close> and \<^verbatim>\<open>ui_remix.py\<close> that
  consult it, and the authentication of \<^verbatim>\<open>auth.py\<close> that the workflow of
  \<^verbatim>\<open>remix.py\<close> runs first.

  Conventions of the embedding:
  \<^item> An instant is the number of microseconds of a naive local \<^verbatim>\<open>datetime\<close>; the source
    stores instants as ISO strings (\<^verbatim>\<open>isoformat\<close>) and reads them back with
    \<^verbatim>\<open>fromisoformat\<close>, which is the identity on instants. The bounded range of
    \<^verbatim>\<open>datetime\<close> (years 1 to 9999) is not modelled.
  \<^item> Every \<^verbatim>\<open>datetime.now()\<close> of the source is an argument of the function that reads
    the clock: the value that call returns if it is executed.
  \<^item> Durations in seconds are Python floats: rationals that are exact values of IEEE
    doubles, with every arithmetic operation of the source rounded to the nearest double.
  \<^item> The manager carries, besides \<^verbatim>\<open>self.state\<close>, the content of the file at
    \<^verbatim>\<open>self.state_file\<close> and the trace of what the process did to the outside world
    (console output, sleeps, prompts, transport calls, browser launches), oldest first.
\<close>

subsection \<open>Configuration constants\<close>

type_synonym instant = int

definition MIN_REQUEST_INTERVAL_SECONDS :: rat where
  "MIN_REQUEST_INTERVAL_SECONDS = 2"

definition MAX_REQUESTS_PER_HOUR :: int where
  "MAX_REQUESTS_PER_HOUR = 60"

definition MAX_CONSECUTIVE_FAILURES :: int where
  "MAX_CONSECUTIVE_FAILURES = 3"

definition CIRCUIT_BREAKER_RESET_MINUTES :: int where
  "CIRCUIT_BREAKER_RESET_MINUTES = 15"

definition MAX_RETRIES :: int where
  "MAX_RETRIES = 2"

definition RETRY_BACKOFF_BASE :: rat where
  "RETRY_BACKOFF_BASE = 2"

definition RETRY_BACKOFF_MAX :: rat where
  "RETRY_BACKOFF_MAX = 30"

definition MAX_OPERATIONS_PER_SESSION :: int where
  "MAX_OPERATIONS_PER_SESSION = 10"

definition MAX_REMIXES_PER_DAY :: int where
  "MAX_REMIXES_PER_DAY = 20"

subsection \<open>Time and text helpers of the Python runtime\<close>

text \<open>\<^verbatim>\<open>timedelta(minutes=n)\<close> in microseconds.\<close>

definition timedelta_minutes :: "int \<Rightarrow> int" where
  "timedelta_minutes n = n * 60000000"

text \<open>Decimal digits of a natural number, as \<^verbatim>\<open>str\<close> prints them.\<close>

fun dec :: "nat \<Rightarrow> string" where
  "dec n = (if n < 10 then [char_of (48 + n)] else dec (n div 10) @ [char_of (48 + n mod 10)])"

declare dec.simps [simp del]

definition round_half_even :: "rat \<Rightarrow> int" where
  "round_half_even y =
     (let f = \<lfloor>y\<rfloor>; r = y - of_int f
      in if r < 1 / 2 then f else if 1 / 2 < r then f + 1 else if even f then f else f + 1)"

text \<open>
  Binary floating point. A Python float is an IEEE double; the model holds the exact
  rational value of the double. \<open>float_round\<close> rounds a rational to the nearest double,
  ties to even: for \<open>x\<close> with \<open>2^e \<le> |x| < 2^(e+1)\<close> the doubles around \<open>x\<close> are the
  multiples of \<open>2^(e-52)\<close>. The durations computed here are far inside the normal range,
  so overflow and subnormal numbers are not modelled in this function.
\<close>

function bit_length :: "int \<Rightarrow> nat" where
  "bit_length n = (if n \<le> 0 then 0 else Suc (bit_length (n div 2)))"
  by pat_completeness auto
termination
  by (relation "measure nat") auto

declare bit_length.simps [simp del]

definition float_exponent :: "rat \<Rightarrow> int" where
  "float_exponent x =
     (case quotient_of \<bar>x\<bar> of
        (p, q) \<Rightarrow>
          (let d = int (bit_length p) - int (bit_length q)
           in if 2 powi d \<le> \<bar>x\<bar> then d else d - 1))"

definition float_round :: "rat \<Rightarrow> rat" where
  "float_round x =
     (if x = 0 then 0
      else (let ulp = 2 powi (float_exponent x - 52)
            in of_int (round_half_even (x / ulp)) * ulp))"

text \<open>
  \<^verbatim>\<open>(a - b).total_seconds()\<close> for a difference given in microseconds: the correctly
  rounded quotient by \<open>10^6\<close>.
\<close>

definition total_seconds :: "int \<Rightarrow> rat" where
  "total_seconds d = float_round (of_int d / 1000000)"

text \<open>
  The format \<^verbatim>\<open>{x:.1f}\<close> of a float with exact value \<open>x\<close>: the decimal with one
  digit after the point nearest to \<open>x\<close> (ties to even), with a minus sign for a negative
  value, also when it rounds to zero.
\<close>

definition fmt_1f :: "rat \<Rightarrow> string" where
  "fmt_1f x =
     (let t = round_half_even (\<bar>x\<bar> * 10)
      in (if x < 0 then ''-'' else '''') @ dec (nat (t div 10)) @ ''.'' @ dec (nat (t mod 10)))"

text \<open>\<^verbatim>\<open>str.lower()\<close> on the ASCII letters; every other character is kept.\<close>

definition lower_char :: "char \<Rightarrow> char" where
  "lower_char c = (let n = (of_char c :: nat) in if 65 \<le> n \<and> n \<le> 90 then char_of (n + 32) else c)"

definition lower :: "string \<Rightarrow> string" where
  "lower s = map lower_char s"

text \<open>\<^verbatim>\<open>s.startswith(p)\<close> and the substring test \<^verbatim>\<open>sub in s\<close>.\<close>

fun startswith :: "string \<Rightarrow> string \<Rightarrow> bool" where
  "startswith s [] = True"
| "startswith [] (p # ps) = False"
| "startswith (c # cs) (p # ps) = (c = p \<and> startswith cs ps)"

fun py_in :: "string \<Rightarrow> string \<Rightarrow> bool" where
  "py_in sub [] = (sub = [])"
| "py_in sub (c # cs) = (startswith (c # cs) sub \<or> py_in sub cs)"

text \<open>The text an f-string prints for an optional string.\<close>

definition str_opt :: "string option \<Rightarrow> string" where
  "str_opt v = (case v of None \<Rightarrow> ''None'' | Some s \<Rightarrow> s)"

text \<open>Truth of an optional string, and \<^verbatim>\<open>a or b\<close> on optional strings.\<close>

definition truthy :: "string option \<Rightarrow> bool" where
  "truthy v = (case v of None \<Rightarrow> False | Some s \<Rightarrow> s \<noteq> [])"

definition py_or :: "string option \<Rightarrow> string option \<Rightarrow> string option" where
  "py_or a b = (if truthy a then a else b)"

text \<open>\<^verbatim>\<open>str\<close> of an integer and of a boolean.\<close>

definition str_int :: "int \<Rightarrow> string" where
  "str_int i = (if i < 0 then CHR ''-'' # dec (nat (- i)) else dec (nat i))"

definition str_bool :: "bool \<Rightarrow> string" where
  "str_bool b = (if b then ''True'' else ''False'')"

text \<open>The slice \<^verbatim>\<open>xs[-n:]\<close> for a positive \<open>n\<close>: the last \<open>n\<close> elements.\<close>

definition last_n :: "nat \<Rightarrow> 'a list \<Rightarrow> 'a list" where
  "last_n n xs = drop (length xs - n) xs"

subsection \<open>Data classes\<close>

record RequestLog =
  timestamp :: instant
  operation :: string
  endpoint :: string
  success :: bool
  error :: "string option"
  response_code :: "int option"

record SafetyState =
  requests_today :: int
  remixes_today :: int
  last_request_time :: "instant option"
  consecutive_failures :: int
  circuit_breaker_until :: "instant option"
  last_reset_date :: string
  request_log :: "RequestLog list"
  remix_history :: "string \<rightharpoonup> string"

text \<open>\<^verbatim>\<open>SafetyState()\<close>: the defaults of the data class.\<close>

definition SafetyState_default :: SafetyState where
  "SafetyState_default =
     \<lparr>requests_today = 0, remixes_today = 0, last_request_time = None,
      consecutive_failures = 0, circuit_breaker_until = None, last_reset_date = '''',
      request_log = [], remix_history = Map.empty\<rparr>"

text \<open>
  The file at \<^verbatim>\<open>self.state_file\<close>: missing, present but not loadable (the JSON does
  not parse or does not fit the data class), or holding a state. Writing the state as
  JSON and reading it back returns the same fields.
\<close>

datatype stored = Absent | Unreadable | Holds SafetyState

text \<open>
  The data classes of \<^verbatim>\<open>api.py\<close> and \<^verbatim>\<open>remix.py\<close>. Several of them share field
  names with \<^verbatim>\<open>RequestLog\<close>, so their fields carry a prefix here.
\<close>

record Project =
  p_id :: string
  p_name :: string
  p_url :: string
  p_created_at :: "string option"
  p_updated_at :: "string option"

datatype raw = Raw_data "string \<rightharpoonup> string" | Raw_failure int string

record RemixResult =
  rr_success :: bool
  rr_project_id :: "string option"
  rr_project_url :: "string option"
  rr_error :: "string option"
  rr_raw_response :: "raw option"
  rr_response_code :: "int option"

record RemixWorkflowResult =
  wf_success :: bool
  wf_source_project_id :: string
  wf_new_project_id :: "string option"
  wf_new_project_url :: "string option"
  wf_error :: "string option"
  wf_timestamp :: instant

record UIRemixResult =
  ui_success :: bool
  ui_new_project_id :: "string option"
  ui_new_project_url :: "string option"
  ui_error :: "string option"

text \<open>
  How the browser session of \<^verbatim>\<open>ui_remix\<close> ends: on the page of a new project (with
  its id, which is not empty), without a new project, with a Playwright timeout, or with
  another exception (each with the text of the exception).
\<close>

datatype browser_outcome =
    New_project string
  | No_new_project
  | Playwright_timeout string
  | Browser_error string

text \<open>
  What the transport collaborator hands back. The parsed body of a response is either an
  error of \<^verbatim>\<open>response.json()\<close> (with the text of the exception), a JSON object (its
  string fields, and the text Python prints for it), or another JSON value (the text
  Python prints for it, and the text of the exception its missing \<^verbatim>\<open>get\<close> raises).
  A call that does not return a response raises \<^verbatim>\<open>requests.Timeout\<close> or another
  \<^verbatim>\<open>RequestException\<close>, each with the text of the exception.
\<close>

datatype json_body =
    Json_error string
  | Json_object "string \<rightharpoonup> string" string
  | Json_other string string

record Response =
  status_code :: int
  body_text :: string
  body_json :: json_body

datatype transport = Replied Response | Timed_out string | Request_failed string

text \<open>
  What authentication (\<^verbatim>\<open>auth.py\<close>) finds in its environment: whether the saved token
  and session files exist, the stripped text of the token file, the token and the
  credentials of the configuration, and how each browser session it may start ends.

  A session that validates the saved session (\<^verbatim>\<open>_validate_session\<close>) runs inside one
  \<^verbatim>\<open>try\<close>: Playwright fails before the browser is launched (\<open>Driver_error\<close>), or the
  browser is launched and the session ends redirected to the login page, with a captured
  bearer token, without one, or with an exception (\<open>Validation_error\<close>).

  A login session (\<^verbatim>\<open>login_with_email_password\<close>) starts Playwright, launches the
  browser and opens the page outside its \<^verbatim>\<open>try\<close>: an exception there leaves the
  function (\<open>Login_driver_raises\<close> before the launch, \<open>Login_setup_raises\<close> at the
  launch or after it). Inside the \<^verbatim>\<open>try\<close> the session ends with a captured token,
  without one, or with an exception that is caught (\<open>Login_error\<close>).
\<close>

datatype validation_outcome =
  Driver_error | Redirected_to_login | Captured string | No_capture | Validation_error

datatype login_outcome =
    Login_driver_raises string
  | Login_setup_raises string
  | Login_captured string
  | Login_no_token
  | Login_error string

record auth_env =
  token_file_exists :: bool
  session_file_exists :: bool
  saved_token :: string
  config_token :: "string option"
  has_credentials :: bool
  validation_saved :: validation_outcome
  validation_login :: validation_outcome
  login :: login_outcome

text \<open>
  What the process does to the outside world, in the order it happens: console output
  of the safety manager, sleeps, the confirmation prompt, calls of the HTTP session
  (method, URL, JSON payload), every launch of a browser, the lines that report a
  blocked workflow and the result file the workflow writes. The remaining progress lines
  of the workflow modules are decoration and are left out.
\<close>

datatype effect =
    Warn_load_failed
  | Say_new_day
  | Say_rate_wait rat
  | Sleep rat
  | Panel_idempotency "string option"
  | Warn_operations int
  | Panel_confirmation "string option" int int
  | Ask_proceed
  | Panel_breaker_tripped instant
  | Http string string "(string \<times> string) list option"
  | Say_blocked string
  | Save_result RemixWorkflowResult
  | Browser_launch
  | Say_ui_blocked string

record SafetyManager =
  state :: SafetyState
  state_file :: stored
  trace :: "effect list"

definition emit :: "effect \<Rightarrow> SafetyManager \<Rightarrow> SafetyManager" where
  "emit e m = m\<lparr>trace := trace m @ [e]\<rparr>"

subsection \<open>Loading, saving, daily reset, audit log\<close>

definition load_state :: "stored \<Rightarrow> SafetyState \<times> effect list" where
  "load_state f =
     (case f of
        Holds s \<Rightarrow> (s, [])
      | Unreadable \<Rightarrow> (SafetyState_default, [Warn_load_failed])
      | Absent \<Rightarrow> (SafetyState_default, []))"

definition save_state :: "SafetyManager \<Rightarrow> SafetyManager" where
  "save_state m = m\<lparr>state_file := Holds (state m)\<rparr>"

text \<open>\<^verbatim>\<open>_check_daily_reset\<close>; \<open>today\<close> is \<^verbatim>\<open>datetime.now().strftime("%Y-%m-%d")\<close>.\<close>

definition check_daily_reset :: "string \<Rightarrow> SafetyManager \<Rightarrow> SafetyManager" where
  "check_daily_reset today m =
     (if last_reset_date (state m) \<noteq> today
      then save_state
             ((emit Say_new_day m)
                \<lparr>state := (state m)\<lparr>requests_today := 0, remixes_today := 0,
                                     last_reset_date := today, request_log := []\<rparr>\<rparr>)
      else m)"

text \<open>\<^verbatim>\<open>SafetyManager.__init__\<close> on a file with content \<open>f\<close>, with no earlier trace.\<close>

definition init :: "stored \<Rightarrow> string \<Rightarrow> SafetyManager" where
  "init f today =
     check_daily_reset today
       \<lparr>state = fst (load_state f), state_file = f, trace = snd (load_state f)\<rparr>"

text \<open>\<^verbatim>\<open>_log_request\<close>; \<open>now\<close> is the clock reading of the entry's timestamp.\<close>

definition log_request ::
  "instant \<Rightarrow> string \<Rightarrow> string \<Rightarrow> bool \<Rightarrow> string option \<Rightarrow> int option
     \<Rightarrow> SafetyManager \<Rightarrow> SafetyManager" where
  "log_request now op ep ok err code m =
     (let log_entry = \<lparr>timestamp = now, operation = op, endpoint = ep, success = ok,
                        error = err, response_code = code\<rparr>;
          appended = request_log (state m) @ [log_entry];
          kept = (if length appended > 100 then last_n 100 appended else appended)
      in save_state (m\<lparr>state := (state m)\<lparr>request_log := kept\<rparr>\<rparr>))"

subsection \<open>Safety checks\<close>

definition check_rate_limit :: "instant \<Rightarrow> SafetyState \<Rightarrow> bool \<times> string" where
  "check_rate_limit now s =
     (case (case last_request_time s of
              None \<Rightarrow> None
            | Some last_time \<Rightarrow>
                (let elapsed = total_seconds (now - last_time)
                 in if elapsed < MIN_REQUEST_INTERVAL_SECONDS
                    then Some (float_round (MIN_REQUEST_INTERVAL_SECONDS - elapsed))
                    else None)) of
        Some wait_time \<Rightarrow>
          (False, ''Rate limit: wait '' @ fmt_1f wait_time @ ''s before next request'')
      | None \<Rightarrow>
          if requests_today s \<ge> MAX_REQUESTS_PER_HOUR
          then (False, ''Hourly limit reached (60 requests)'')
          else (True, ''''))"

text \<open>
  \<^verbatim>\<open>check_circuit_breaker\<close>; \<open>now\<close> is the reading compared with the reset time,
  \<open>now'\<close> the second reading, taken for the remaining minutes of the message.
\<close>

definition check_circuit_breaker ::
  "instant \<Rightarrow> instant \<Rightarrow> SafetyManager \<Rightarrow> (bool \<times> string) \<times> SafetyManager" where
  "check_circuit_breaker now now' m =
     (case circuit_breaker_until (state m) of
        None \<Rightarrow> ((True, ''''), m)
      | Some reset_time \<Rightarrow>
          if now < reset_time
          then (let remaining = float_round (total_seconds (reset_time - now') / 60)
                in ((False, ''Circuit breaker active: '' @ fmt_1f remaining
                              @ '' minutes until reset''), m))
          else ((True, ''''),
                save_state (m\<lparr>state := (state m)\<lparr>circuit_breaker_until := None,
                                                    consecutive_failures := 0\<rparr>\<rparr>)))"

definition check_daily_limits :: "string \<Rightarrow> SafetyState \<Rightarrow> bool \<times> string" where
  "check_daily_limits op s =
     (if op = ''remix'' \<and> remixes_today s \<ge> MAX_REMIXES_PER_DAY
      then (False, ''Daily remix limit reached (20)'')
      else (True, ''''))"

text \<open>
  \<^verbatim>\<open>check_idempotency\<close>. The source tests \<^verbatim>\<open>if existing:\<close>, which holds for a
  stored string that is not empty.
\<close>

definition check_idempotency :: "string \<Rightarrow> string \<Rightarrow> SafetyState \<Rightarrow> bool \<times> string option" where
  "check_idempotency op project_id s =
     (if op = ''remix''
      then (case remix_history s project_id of
              Some existing \<Rightarrow> if existing \<noteq> '''' then (False, Some existing) else (True, None)
            | None \<Rightarrow> (True, None))
      else (True, None))"

subsection \<open>Utility methods\<close>

definition wait_for_rate_limit :: "instant \<Rightarrow> SafetyManager \<Rightarrow> SafetyManager" where
  "wait_for_rate_limit now m =
     (case last_request_time (state m) of
        None \<Rightarrow> m
      | Some last_time \<Rightarrow>
          (let elapsed = total_seconds (now - last_time)
           in if elapsed < MIN_REQUEST_INTERVAL_SECONDS
              then (let wait_time = float_round (MIN_REQUEST_INTERVAL_SECONDS - elapsed)
                    in emit (Sleep wait_time) (emit (Say_rate_wait wait_time) m))
              else m))"

datatype py_error = OverflowError

text \<open>
  \<^verbatim>\<open>get_retry_delay\<close> computes \<^verbatim>\<open>2.0 ** attempt\<close> in binary floating point. The
  power of two is exact for exponents from -1074 to 1023. From 1024 on the result is out
  of the float range and Python raises \<^verbatim>\<open>OverflowError\<close>; below -1074 the power
  underflows to 0.0; an integer too large in magnitude to convert to a float
  (from \<open>2^1024 - 2^970\<close> on) raises \<^verbatim>\<open>OverflowError\<close> as well.
\<close>

definition float_pow2 :: "int \<Rightarrow> py_error + rat" where
  "float_pow2 n =
     (if 1024 \<le> n \<or> n \<le> - (2 ^ 1024 - 2 ^ 970) then Inl OverflowError
      else if n < - 1074 then Inr 0
      else Inr (RETRY_BACKOFF_BASE powi n))"

definition get_retry_delay :: "int \<Rightarrow> py_error + rat" where
  "get_retry_delay attempt =
     (case float_pow2 attempt of
        Inl e \<Rightarrow> Inl e
      | Inr p \<Rightarrow> Inr (min p RETRY_BACKOFF_MAX))"

definition no_retry_errors :: "string list" where
  "no_retry_errors = [''403'', ''401'', ''404'', ''already remixed'', ''supabase'']"

definition should_retry :: "int \<Rightarrow> string option \<Rightarrow> bool" where
  "should_retry attempt err =
     (if attempt \<ge> MAX_RETRIES then False
      else (case err of
              None \<Rightarrow> True
            | Some e \<Rightarrow>
                if e \<noteq> '''' \<and> list_ex (\<lambda>pat. py_in pat (lower e)) no_retry_errors
                then False else True))"

subsection \<open>Pre-operation gate\<close>

text \<open>
  \<^verbatim>\<open>pre_operation_check\<close>. \<open>t_breaker\<close> and \<open>t_remaining\<close> are the two clock readings
  of the circuit-breaker check, \<open>t_wait\<close> is the reading of the rate-limit wait, and
  \<open>answer\<close> is what the user types if the prompt is shown.
\<close>

definition pre_operation_check ::
  "instant \<Rightarrow> instant \<Rightarrow> instant \<Rightarrow> string \<Rightarrow> string \<Rightarrow> string option \<Rightarrow> bool
     \<Rightarrow> SafetyManager \<Rightarrow> (bool \<times> string) \<times> SafetyManager" where
  "pre_operation_check t_breaker t_remaining t_wait answer op project_id skip_confirmation m =
     (case check_circuit_breaker t_breaker t_remaining m of
        ((allowed, reason), m1) \<Rightarrow>
          if \<not> allowed then ((False, reason), m1)
          else
            (let m2 = wait_for_rate_limit t_wait m1
             in case check_daily_limits op (state m2) of
                  (allowed, reason) \<Rightarrow>
                    if \<not> allowed then ((False, reason), m2)
                    else
                      (case (case project_id of
                               None \<Rightarrow> None
                             | Some p \<Rightarrow>
                                 if op = ''remix'' \<and> p \<noteq> ''''
                                 then (case check_idempotency op p (state m2) of
                                         (is_new, existing_id) \<Rightarrow>
                                           if \<not> is_new then Some existing_id else None)
                                 else None) of
                         Some existing_id \<Rightarrow>
                           ((False, ''Already remixed: '' @ str_opt existing_id),
                            emit (Panel_idempotency existing_id) m2)
                       | None \<Rightarrow>
                           (let m3 = (if requests_today (state m2) \<ge> MAX_OPERATIONS_PER_SESSION
                                      then emit (Warn_operations (requests_today (state m2))) m2
                                      else m2)
                            in if op = ''remix'' \<and> \<not> skip_confirmation
                               then (let m4 = emit Ask_proceed
                                                (emit (Panel_confirmation project_id
                                                         (remixes_today (state m3))
                                                         (requests_today (state m3))) m3)
                                     in if lower answer \<notin> {''yes'', ''y''}
                                        then ((False, ''User declined''), m4)
                                        else ((True, ''''), m4))
                               else ((True, ''''), m3)))))"

subsection \<open>Post-operation handlers\<close>

text \<open>
  \<^verbatim>\<open>record_request\<close>. \<open>t_request\<close> is the reading stored as the last request time,
  \<open>t_trip\<close> the reading taken when the breaker trips, \<open>t_log\<close> the timestamp of the log
  entry.
\<close>

definition record_request ::
  "instant \<Rightarrow> instant \<Rightarrow> instant \<Rightarrow> string \<Rightarrow> string \<Rightarrow> bool \<Rightarrow> string option \<Rightarrow> int option
     \<Rightarrow> SafetyManager \<Rightarrow> SafetyManager" where
  "record_request t_request t_trip t_log op ep ok err code m =
     (let m1 = m\<lparr>state := (state m)\<lparr>requests_today := requests_today (state m) + 1,
                                      last_request_time := Some t_request\<rparr>\<rparr>;
          m2 = (if ok
                then m1\<lparr>state := (state m1)\<lparr>consecutive_failures := 0\<rparr>\<rparr>
                else
                  (let m1' = m1\<lparr>state := (state m1)
                                  \<lparr>consecutive_failures := consecutive_failures (state m1) + 1\<rparr>\<rparr>
                   in if consecutive_failures (state m1') \<ge> MAX_CONSECUTIVE_FAILURES
                      then (let reset_time = t_trip + timedelta_minutes CIRCUIT_BREAKER_RESET_MINUTES
                            in emit (Panel_breaker_tripped reset_time)
                                 (m1'\<lparr>state := (state m1')\<lparr>circuit_breaker_until := Some reset_time\<rparr>\<rparr>))
                      else m1'))
      in save_state (log_request t_log op ep ok err code m2))"

definition record_remix_success :: "string \<Rightarrow> string \<Rightarrow> SafetyManager \<Rightarrow> SafetyManager" where
  "record_remix_success source_project_id new_project_id m =
     save_state
       (m\<lparr>state := (state m)\<lparr>remixes_today := remixes_today (state m) + 1,
                             remix_history := (remix_history (state m))
                                                (source_project_id \<mapsto> new_project_id)\<rparr>\<rparr>)"

section \<open>The workflows (api.py, remix.py, ui_remix.py)\<close>

text \<open>The clock readings of one gate evaluation and of one \<^verbatim>\<open>_request\<close>.\<close>

record gate_times =
  at_breaker :: instant
  at_remaining :: instant
  at_gate_wait :: instant

record request_times =
  at_wait :: instant
  at_request :: instant
  at_trip :: instant
  at_log :: instant

definition BASE_URL :: string where
  "BASE_URL = ''https://api.lovable.dev''"

definition REQUEST_TIMEOUT :: int where
  "REQUEST_TIMEOUT = 30"

text \<open>
  \<^verbatim>\<open>LovableAPI._request\<close>: \<open>Inr\<close> the response, \<open>Inl\<close> the text of the exception
  that is raised again after the failure is recorded.
\<close>

definition request ::
  "request_times \<Rightarrow> transport \<Rightarrow> string \<Rightarrow> string \<Rightarrow> (string \<times> string) list option \<Rightarrow> string
     \<Rightarrow> SafetyManager \<Rightarrow> (string + Response) \<times> SafetyManager" where
  "request rt reply method ep payload operation_name m =
     (let url = BASE_URL @ ep;
          m1 = wait_for_rate_limit (at_wait rt) m;
          m2 = emit (Http method url payload) m1
      in case reply of
           Replied response \<Rightarrow>
             (Inr response,
              record_request (at_request rt) (at_trip rt) (at_log rt) operation_name ep
                (status_code response \<in> {200, 201}) None (Some (status_code response)) m2)
         | Timed_out msg \<Rightarrow>
             (Inl msg,
              record_request (at_request rt) (at_trip rt) (at_log rt) operation_name ep
                False (Some (''Request timeout after '' @ str_int REQUEST_TIMEOUT @ ''s'')) None m2)
         | Request_failed msg \<Rightarrow>
             (Inl msg,
              record_request (at_request rt) (at_trip rt) (at_log rt) operation_name ep
                False (Some (''Request failed: '' @ msg)) None m2))"

text \<open>\<^verbatim>\<open>RemixResult(success=False, error=msg)\<close>.\<close>

definition failed_result :: "string \<Rightarrow> RemixResult" where
  "failed_result msg =
     \<lparr>rr_success = False, rr_project_id = None, rr_project_url = None, rr_error = Some msg,
      rr_raw_response = None, rr_response_code = None\<rparr>"

text \<open>
  \<^verbatim>\<open>LovableAPI.remix_project\<close>. \<open>gt\<close> and \<open>answer\<close> feed the gate, \<open>rt\<close> and
  \<open>reply\<close> the one transport call.
\<close>

definition remix_project ::
  "gate_times \<Rightarrow> string \<Rightarrow> request_times \<Rightarrow> transport \<Rightarrow> string \<Rightarrow> bool \<Rightarrow> bool
     \<Rightarrow> SafetyManager \<Rightarrow> RemixResult \<times> SafetyManager" where
  "remix_project gt answer rt reply pid include_history skip_confirmation m =
     (case pre_operation_check (at_breaker gt) (at_remaining gt) (at_gate_wait gt) answer
             ''remix'' (Some pid) skip_confirmation m of
        ((allowed, reason), m1) \<Rightarrow>
          if \<not> allowed then (failed_result (''Operation blocked: '' @ reason), m1)
          else
            (case request rt reply ''POST'' (''/projects/'' @ pid @ ''/remix'')
                    (Some [(''include_history'', lower (str_bool include_history))]) ''remix'' m1 of
               (Inl msg, m2) \<Rightarrow> (failed_result (''Remix request failed: '' @ msg), m2)
             | (Inr response, m2) \<Rightarrow>
                 if status_code response \<in> {200, 201}
                 then (case body_json response of
                         Json_error msg \<Rightarrow> (failed_result (''Remix request failed: '' @ msg), m2)
                       | Json_other shown msg \<Rightarrow>
                           (failed_result (''Remix request failed: '' @ msg), m2)
                       | Json_object data shown \<Rightarrow>
                           (let new_project_id =
                                  py_or (py_or (data ''id'') (data ''project_id'')) (data ''projectId'')
                            in case new_project_id of
                                 Some new_id \<Rightarrow>
                                   if new_id \<noteq> ''''
                                   then (\<lparr>rr_success = True, rr_project_id = new_project_id,
                                           rr_project_url =
                                             Some (''https://lovable.dev/projects/'' @ new_id),
                                           rr_error = None, rr_raw_response = Some (Raw_data data),
                                           rr_response_code = Some (status_code response)\<rparr>,
                                         record_remix_success pid new_id m2)
                                   else (\<lparr>rr_success = True, rr_project_id = new_project_id,
                                           rr_project_url = None,
                                           rr_error = None, rr_raw_response = Some (Raw_data data),
                                           rr_response_code = Some (status_code response)\<rparr>, m2)
                               | None \<Rightarrow>
                                   (\<lparr>rr_success = True, rr_project_id = None,
                                     rr_project_url = None,
                                     rr_error = None, rr_raw_response = Some (Raw_data data),
                                     rr_response_code = Some (status_code response)\<rparr>, m2)))
                 else (let error_msg = ''Remix failed with status '' @ str_int (status_code response);
                           error_msg' = (case body_json response of
                                           Json_error msg \<Rightarrow> error_msg @ '': '' @ body_text response
                                         | Json_object data shown \<Rightarrow> error_msg @ '': '' @ shown
                                         | Json_other shown msg \<Rightarrow> error_msg @ '': '' @ shown)
                       in (\<lparr>rr_success = False, rr_project_id = None, rr_project_url = None,
                             rr_error = Some error_msg',
                             rr_raw_response =
                               Some (Raw_failure (status_code response) (body_text response)),
                             rr_response_code = Some (status_code response)\<rparr>, m2))))"

text \<open>
  \<^verbatim>\<open>LovableAPI.get_project\<close>: a rate-limit wait of its own (reading \<open>t_wait\<close>), then
  one GET.
\<close>

definition get_project ::
  "instant \<Rightarrow> request_times \<Rightarrow> transport \<Rightarrow> string \<Rightarrow> SafetyManager
     \<Rightarrow> Project option \<times> SafetyManager" where
  "get_project t_wait rt reply pid m =
     (let m1 = wait_for_rate_limit t_wait m
      in case request rt reply ''GET'' (''/projects/'' @ pid) None ''get_project'' m1 of
           (Inl msg, m2) \<Rightarrow> (None, m2)
         | (Inr response, m2) \<Rightarrow>
             if status_code response = 200
             then (case body_json response of
                     Json_object data shown \<Rightarrow>
                       (Some \<lparr>p_id = (case data ''id'' of None \<Rightarrow> pid | Some v \<Rightarrow> v),
                              p_name = (case data ''name'' of None \<Rightarrow> ''Unnamed'' | Some v \<Rightarrow> v),
                              p_url = ''https://lovable.dev/projects/'' @ pid,
                              p_created_at = py_or (data ''created_at'') (data ''createdAt''),
                              p_updated_at = py_or (data ''updated_at'') (data ''updatedAt'')\<rparr>, m2)
                   | Json_error msg \<Rightarrow> (None, m2)
                   | Json_other shown msg \<Rightarrow> (None, m2))
             else (None, m2))"

subsection \<open>Authentication (auth.py)\<close>

text \<open>
  \<^verbatim>\<open>LovableAuth._validate_session\<close>: one browser session on the saved session.
  Every call of \<^verbatim>\<open>chromium.launch\<close> is recorded in the trace that the manager
  carries.
\<close>

definition validate_session ::
  "auth_env \<Rightarrow> validation_outcome \<Rightarrow> SafetyManager \<Rightarrow> (bool \<times> string option) \<times> SafetyManager" where
  "validate_session env outcome m =
     (case outcome of
        Driver_error \<Rightarrow> ((False, None), m)
      | Redirected_to_login \<Rightarrow> ((False, None), emit Browser_launch m)
      | Captured t \<Rightarrow> ((True, Some t), emit Browser_launch m)
      | No_capture \<Rightarrow>
          if token_file_exists env then ((True, Some (saved_token env)), emit Browser_launch m)
          else ((False, None), emit Browser_launch m)
      | Validation_error \<Rightarrow> ((False, None), emit Browser_launch m))"

text \<open>
  \<^verbatim>\<open>LovableAuth.login_with_email_password\<close>: \<open>Inr\<close> the pair of token and error
  message that is returned, \<open>Inl\<close> the text of an exception that leaves the function.
\<close>

definition login_with_email_password ::
  "auth_env \<Rightarrow> SafetyManager \<Rightarrow> (string + string \<times> string option) \<times> SafetyManager" where
  "login_with_email_password env m =
     (if \<not> has_credentials env
      then (Inr ('''', Some ''No email/password credentials configured''), m)
      else (case login env of
              Login_driver_raises msg \<Rightarrow> (Inl msg, m)
            | Login_setup_raises msg \<Rightarrow> (Inl msg, emit Browser_launch m)
            | Login_captured t \<Rightarrow> (Inr (t, None), emit Browser_launch m)
            | Login_no_token \<Rightarrow>
                (Inr ('''', Some ''Login succeeded but no bearer token captured''),
                 emit Browser_launch m)
            | Login_error msg \<Rightarrow>
                (Inr ('''', Some (''Login error: '' @ msg)), emit Browser_launch m)))"

text \<open>\<^verbatim>\<open>LovableAuth.login_and_extract_token\<close>.\<close>

definition login_and_extract_token ::
  "auth_env \<Rightarrow> SafetyManager \<Rightarrow> (string + string \<times> string option) \<times> SafetyManager" where
  "login_and_extract_token env m =
     (case (if session_file_exists env
            then (case validate_session env (validation_login env) m of
                    ((is_valid, token), m1) \<Rightarrow>
                      (if is_valid \<and> truthy token then token else None, m1))
            else (None, m)) of
        (Some t, m1) \<Rightarrow> (Inr (t, None), m1)
      | (None, m1) \<Rightarrow>
          if has_credentials env then login_with_email_password env m1
          else (Inr ('''',
                     Some ''No credentials configured. Set LOVABLE_EMAIL and LOVABLE_PASSWORD in .env''),
                m1))"

text \<open>\<^verbatim>\<open>get_or_refresh_token\<close>.\<close>

definition get_or_refresh_token ::
  "auth_env \<Rightarrow> SafetyManager \<Rightarrow> (string + string \<times> string option) \<times> SafetyManager" where
  "get_or_refresh_token env m =
     (case (if token_file_exists env \<and> session_file_exists env \<and> saved_token env \<noteq> ''''
            then (case validate_session env (validation_saved env) m of
                    ((is_valid, token), m1) \<Rightarrow>
                      (if is_valid \<and> truthy token then token else None, m1))
            else (None, m)) of
        (Some t, m1) \<Rightarrow> (Inr (t, None), m1)
      | (None, m1) \<Rightarrow>
          if truthy (config_token env) then (Inr (str_opt (config_token env), None), m1)
          else login_and_extract_token env m1)"

text \<open>
  \<^verbatim>\<open>create_remix\<close> of \<^verbatim>\<open>remix.py\<close>: \<open>Inr\<close> what it returns, \<open>Inl\<close> the text of an
  exception of authentication, which it does not catch. \<open>m\<close> is the manager that
  \<^verbatim>\<open>get_safety_manager()\<close> returns, \<open>env\<close> the environment of authentication.
  The first transport reply and readings belong to the verification of the source
  project, the second to the remix; \<open>t_result\<close> is the timestamp of the workflow
  result.
\<close>

definition create_remix ::
  "auth_env \<Rightarrow> instant \<Rightarrow> request_times \<Rightarrow> transport
     \<Rightarrow> gate_times \<Rightarrow> string \<Rightarrow> request_times \<Rightarrow> transport \<Rightarrow> instant
     \<Rightarrow> string \<Rightarrow> bool \<Rightarrow> bool \<Rightarrow> SafetyManager
     \<Rightarrow> (string + RemixWorkflowResult option) \<times> SafetyManager" where
  "create_remix env t_wait rt_get reply_get gt answer rt reply t_result
       source_project_id include_history skip_confirmation m =
     (case get_or_refresh_token env m of
        (Inl msg, m0) \<Rightarrow> (Inl msg, m0)
      | (Inr (token, auth_error), m0) \<Rightarrow>
          if truthy auth_error
          then (Inr (Some \<lparr>wf_success = False, wf_source_project_id = source_project_id,
                           wf_new_project_id = None, wf_new_project_url = None,
                           wf_error = Some (''Authentication failed: '' @ str_opt auth_error),
                           wf_timestamp = t_result\<rparr>), m0)
          else
            (case get_project t_wait rt_get reply_get source_project_id m0 of
               (source_project, m1) \<Rightarrow>
                 (case remix_project gt answer rt reply source_project_id include_history
                         skip_confirmation m1 of
                    (result, m2) \<Rightarrow>
                      if truthy (rr_error result)
                           \<and> py_in ''Operation blocked'' (str_opt (rr_error result))
                      then (Inr None, emit (Say_blocked (str_opt (rr_error result))) m2)
                      else if rr_success result
                      then (let workflow_result =
                                  \<lparr>wf_success = True, wf_source_project_id = source_project_id,
                                   wf_new_project_id = rr_project_id result,
                                   wf_new_project_url = rr_project_url result,
                                   wf_error = None, wf_timestamp = t_result\<rparr>
                            in (Inr (Some workflow_result),
                                emit (Save_result workflow_result) m2))
                      else (let workflow_result =
                                  \<lparr>wf_success = False, wf_source_project_id = source_project_id,
                                   wf_new_project_id = None, wf_new_project_url = None,
                                   wf_error = rr_error result, wf_timestamp = t_result\<rparr>
                            in (Inr (Some workflow_result),
                                emit (Save_result workflow_result) m2)))))"

text \<open>
  \<^verbatim>\<open>ui_remix\<close> of \<^verbatim>\<open>ui_remix.py\<close>. \<open>session_exists\<close> tells whether the saved
  browser session file exists, \<open>outcome\<close> is how the browser session ends; the three
  instants are the clock readings of the one \<^verbatim>\<open>record_request\<close> that follows.
\<close>

definition ui_remix ::
  "gate_times \<Rightarrow> string \<Rightarrow> bool \<Rightarrow> browser_outcome \<Rightarrow> instant \<Rightarrow> instant \<Rightarrow> instant
     \<Rightarrow> string \<Rightarrow> bool \<Rightarrow> bool \<Rightarrow> SafetyManager \<Rightarrow> UIRemixResult option \<times> SafetyManager" where
  "ui_remix gt answer session_exists outcome t_request t_trip t_log pid include_history
       skip_confirmation m =
     (case pre_operation_check (at_breaker gt) (at_remaining gt) (at_gate_wait gt) answer
             ''remix'' (Some pid) skip_confirmation m of
        ((allowed, reason), m1) \<Rightarrow>
          if \<not> allowed then (None, emit (Say_ui_blocked reason) m1)
          else if \<not> session_exists
          then (Some \<lparr>ui_success = False, ui_new_project_id = None, ui_new_project_url = None,
                      ui_error = Some ''No session. Authenticate first.''\<rparr>, m1)
          else
            (let m2 = emit Browser_launch m1
             in case outcome of
                  New_project new_project_id \<Rightarrow>
                    (Some \<lparr>ui_success = True, ui_new_project_id = Some new_project_id,
                           ui_new_project_url =
                             Some (''https://lovable.dev/projects/'' @ new_project_id),
                           ui_error = None\<rparr>,
                     record_request t_request t_trip t_log ''ui_remix'' ''/ui/remix'' True None None
                       (record_remix_success pid new_project_id m2))
                | No_new_project \<Rightarrow>
                    (Some \<lparr>ui_success = False, ui_new_project_id = None,
                           ui_new_project_url = None,
                           ui_error = Some ''Timeout waiting for remix to complete''\<rparr>,
                     record_request t_request t_trip t_log ''ui_remix'' ''/ui/remix'' False
                       (Some ''Timeout waiting for remix to complete'') None m2)
                | Playwright_timeout msg \<Rightarrow>
                    (Some \<lparr>ui_success = False, ui_new_project_id = None,
                           ui_new_project_url = None, ui_error = Some (''Timeout: '' @ msg)\<rparr>,
                     record_request t_request t_trip t_log ''ui_remix'' ''/ui/remix'' False
                       (Some (''Timeout: '' @ msg)) None m2)
                | Browser_error msg \<Rightarrow>
                    (Some \<lparr>ui_success = False, ui_new_project_id = None,
                           ui_new_project_url = None, ui_error = Some (''Error: '' @ msg)\<rparr>,
                     record_request t_request t_trip t_log ''ui_remix'' ''/ui/remix'' False
                       (Some (''Error: '' @ msg)) None m2)))"

section \<open>Runs of several calls, and concrete managers\<close>

text \<open>One call of \<^verbatim>\<open>_log_request\<close> with the fields of a given entry.\<close>

definition append_entry :: "RequestLog \<Rightarrow> SafetyManager \<Rightarrow> SafetyManager" where
  "append_entry e m =
     log_request (timestamp e) (operation e) (endpoint e) (success e) (error e) (response_code e) m"

definition example_entry :: "nat \<Rightarrow> RequestLog" where
  "example_entry i =
     \<lparr>timestamp = int i, operation = ''probe'', endpoint = ''/me'', success = True,
      error = None, response_code = Some 200\<rparr>"

text \<open>
  A manager whose state was last reset the day before, with seven requests, four
  remixes, one failure and one remix on record.
\<close>

definition yesterday_manager :: SafetyManager where
  "yesterday_manager =
     \<lparr>state = \<lparr>requests_today = 7, remixes_today = 4, last_request_time = Some 1000000,
                consecutive_failures = 1, circuit_breaker_until = None,
                last_reset_date = ''2024-01-01'', request_log = [example_entry 0],
                remix_history = [''P1'' \<mapsto> ''N1'']\<rparr>,
      state_file = Absent, trace = []\<rparr>"

text \<open>A manager constructed when no state file exists.\<close>

definition fresh_manager :: SafetyManager where
  "fresh_manager = init Absent ''2024-01-02''"

text \<open>Two and three failures recorded in a row on the fresh manager.\<close>

definition two_failures :: SafetyManager where
  "two_failures =
     record_request 20 21 22 ''remix'' ''/ui/remix'' False (Some ''timeout'') None
       (record_request 10 11 12 ''remix'' ''/ui/remix'' False (Some ''timeout'') None
          fresh_manager)"

definition three_failures :: SafetyManager where
  "three_failures =
     record_request 30 31 32 ''remix'' ''/ui/remix'' False (Some ''timeout'') None two_failures"

text \<open>The fresh manager after one successful remix of P1 into N1.\<close>

definition remixed_manager :: SafetyManager where
  "remixed_manager =
     record_remix_success ''P1'' ''N1''
       (record_request 10 11 12 ''remix'' ''/projects/P1/remix'' True None (Some 200)
          fresh_manager)"

text \<open>The fresh manager with the daily remix quota used up.\<close>

definition quota_manager :: SafetyManager where
  "quota_manager = fresh_manager\<lparr>state := (state fresh_manager)\<lparr>remixes_today := 20\<rparr>\<rparr>"

text \<open>The manager after three failures, with the daily remix quota used up as well.\<close>

definition tripped_quota_manager :: SafetyManager where
  "tripped_quota_manager = three_failures\<lparr>state := (state three_failures)\<lparr>remixes_today := 20\<rparr>\<rparr>"

text \<open>The fresh manager with sixty requests counted today.\<close>

definition busy_manager :: SafetyManager where
  "busy_manager = fresh_manager\<lparr>state := (state fresh_manager)\<lparr>requests_today := 60\<rparr>\<rparr>"

text \<open>The transport and UI calls among the effects of a trace.\<close>

fun is_call :: "effect \<Rightarrow> bool" where
  "is_call (Http verb url payload) = True"
| "is_call Browser_launch = True"
| "is_call e = False"

definition transport_calls :: "SafetyManager \<Rightarrow> effect list" where
  "transport_calls m = filter is_call (trace m)"

text \<open>
  Three environments of authentication: one with no saved files and a token in the
  configuration; one with saved token and session files whose validation captures a
  token; one whose saved session is redirected to the login page twice and that logs in
  with the configured credentials.
\<close>

definition token_env :: auth_env where
  "token_env =
     \<lparr>token_file_exists = False, session_file_exists = False, saved_token = '''',
      config_token = Some ''token'', has_credentials = False,
      validation_saved = Validation_error, validation_login = Validation_error,
      login = Login_no_token\<rparr>"

definition session_env :: auth_env where
  "session_env =
     \<lparr>token_file_exists = True, session_file_exists = True, saved_token = ''old'',
      config_token = None, has_credentials = False,
      validation_saved = Captured ''token'', validation_login = Validation_error,
      login = Login_no_token\<rparr>"

definition login_env :: auth_env where
  "login_env =
     \<lparr>token_file_exists = True, session_file_exists = True, saved_token = ''old'',
      config_token = None, has_credentials = True,
      validation_saved = Redirected_to_login, validation_login = Redirected_to_login,
      login = Login_captured ''token''\<rparr>"

text \<open>
  A run of the workflow on the manager that has already remixed P1: authentication
  succeeds with the configured token, the verification of the source project is answered
  with status 404, and a second remix of P1 is asked for with the confirmation skipped.
\<close>

definition not_found :: transport where
  "not_found =
     Replied \<lparr>status_code = 404, body_text = ''Not Found'', body_json = Json_error ''Expecting value''\<rparr>"

definition verify_times :: request_times where
  "verify_times = \<lparr>at_wait = 3000001, at_request = 3000002, at_trip = 3000003, at_log = 3000004\<rparr>"

definition second_gate_times :: gate_times where
  "second_gate_times = \<lparr>at_breaker = 6000000, at_remaining = 6000001, at_gate_wait = 6000002\<rparr>"

definition post_times :: request_times where
  "post_times = \<lparr>at_wait = 6000003, at_request = 6000004, at_trip = 6000005, at_log = 6000006\<rparr>"

definition second_remix_run :: "(string + RemixWorkflowResult option) \<times> SafetyManager" where
  "second_remix_run =
     create_remix token_env 3000000 verify_times not_found second_gate_times ''yes''
       post_times not_found 6000007 ''P1'' False True remixed_manager"

section \<open>Basic facts about saving and the trace\<close>

lemma state_save_state: "state (save_state m) = state m"
  by (simp add: save_state_def)

lemma state_file_save_state: "state_file (save_state m) = Holds (state m)"
  by (simp add: save_state_def)

lemma trace_save_state: "trace (save_state m) = trace m"
  by (simp add: save_state_def)

lemma state_emit: "state (emit e m) = state m"
  by (simp add: emit_def)

lemma trace_emit: "trace (emit e m) = trace m @ [e]"
  by (simp add: emit_def)

lemma state_file_emit: "state_file (emit e m) = state_file m"
  by (simp add: emit_def)

section \<open>Daily rollover\<close>

text \<open>
  Claim C5. When the state's last reset date differs from today, the daily reset sets
  both daily counters to 0, empties the request log, sets the last reset date to today
  and writes the state to the file, and it leaves the remix history, the failure streak,
  the breaker's reset time and the last request time as they were; when the last reset
  date is today, the manager is unchanged.
\<close>

theorem daily_reset_frame:
  "(last_reset_date (state m) \<noteq> today \<longrightarrow>
      (let m' = check_daily_reset today m
       in requests_today (state m') = 0 \<and> remixes_today (state m') = 0
          \<and> request_log (state m') = [] \<and> last_reset_date (state m') = today
          \<and> state_file m' = Holds (state m')
          \<and> remix_history (state m') = remix_history (state m)
          \<and> consecutive_failures (state m') = consecutive_failures (state m)
          \<and> circuit_breaker_until (state m') = circuit_breaker_until (state m)
          \<and> last_request_time (state m') = last_request_time (state m)))
   \<and> (last_reset_date (state m) = today \<longrightarrow> check_daily_reset today m = m)"
  by (simp add: check_daily_reset_def save_state_def emit_def)

theorem daily_reset_frame_witness:
  "last_reset_date (state yesterday_manager) \<noteq> ''2024-01-02''
   \<and> requests_today (state (check_daily_reset ''2024-01-02'' yesterday_manager)) = 0
   \<and> remixes_today (state (check_daily_reset ''2024-01-02'' yesterday_manager)) = 0
   \<and> request_log (state (check_daily_reset ''2024-01-02'' yesterday_manager)) = []
   \<and> remix_history (state (check_daily_reset ''2024-01-02'' yesterday_manager)) ''P1'' = Some ''N1''
   \<and> consecutive_failures (state (check_daily_reset ''2024-01-02'' yesterday_manager)) = 1
   \<and> last_reset_date (state yesterday_manager) = ''2024-01-01''
   \<and> check_daily_reset ''2024-01-01'' yesterday_manager = yesterday_manager"
  using daily_reset_frame [of yesterday_manager "''2024-01-02''"]
    daily_reset_frame [of yesterday_manager "''2024-01-01''"]
  by (simp add: yesterday_manager_def Let_def)

section \<open>Audit log\<close>

lemma last_n_absorb: "last_n n (last_n n xs @ ys) = last_n n (xs @ ys)"
  by (cases "length xs \<le> n") (auto simp: last_n_def add.commute)

lemma request_log_log_request:
  "request_log (state (log_request t op ep ok err code m)) =
     last_n 100 (request_log (state m)
        @ [\<lparr>timestamp = t, operation = op, endpoint = ep, success = ok, error = err,
             response_code = code\<rparr>])"
  by (simp add: log_request_def Let_def state_save_state last_n_def)

lemma request_log_append_entry:
  "request_log (state (append_entry e m)) = last_n 100 (request_log (state m) @ [e])"
  by (cases e) (simp add: append_entry_def request_log_log_request)

lemma request_log_fold_append_entry:
  "es \<noteq> [] \<Longrightarrow>
   request_log (state (fold append_entry es m)) = last_n 100 (request_log (state m) @ es)"
proof (induction es arbitrary: m)
  case Nil
  then show ?case by simp
next
  case (Cons e es)
  show ?case
  proof (cases "es = []")
    case True
    then show ?thesis by (simp add: request_log_append_entry)
  next
    case False
    from Cons.IH [OF False, of "append_entry e m"]
    show ?thesis
      using last_n_absorb [of 100 "request_log (state m) @ [e]" es]
      by (simp add: request_log_append_entry)
  qed
qed

text \<open>
  Claim C8. One call of the audit logger leaves the old log followed by the new entry,
  cut from the head to its last 100 entries: the new entry is last and the length is the
  old length plus one, capped at 100. Hence from every starting log, 105 calls in a row
  leave exactly the last 100 of the 105 new entries, in the order they were appended.
\<close>

theorem audit_log_bound:
  "(let old = request_log (state m);
        e = \<lparr>timestamp = t, operation = op, endpoint = ep, success = ok, error = err,
             response_code = code\<rparr>;
        new = request_log (state (log_request t op ep ok err code m))
    in new = drop (length (old @ [e]) - 100) (old @ [e])
       \<and> last new = e
       \<and> length new = min (length old + 1) 100)
   \<and> (length es = 105 \<longrightarrow>
        request_log (state (fold append_entry es m)) = drop 5 es
        \<and> length (request_log (state (fold append_entry es m))) = 100)"
proof -
  have "length es = 105 \<Longrightarrow> request_log (state (fold append_entry es m)) = drop 5 es"
  proof -
    assume len: "length es = 105"
    then have "es \<noteq> []" by auto
    from request_log_fold_append_entry [OF this, of m] len
    show ?thesis by (simp add: last_n_def)
  qed
  moreover have "length (drop 5 es) = 100" if "length es = 105" using that by simp
  ultimately show ?thesis
    by (auto simp: request_log_log_request last_n_def Let_def min_def)
qed

theorem audit_log_bound_witness:
  "length (map example_entry [0..<105]) = 105
   \<and> request_log (state (fold append_entry (map example_entry [0..<105]) yesterday_manager))
       = map example_entry [5..<105]"
  using audit_log_bound [of yesterday_manager 0 "''''" "''''" True None None
      "map example_entry [0..<105]"]
  by (simp add: drop_map)

section \<open>Circuit breaker\<close>

lemma state_log_request:
  "state (log_request t op ep ok err code m) =
     (state m)\<lparr>request_log := request_log (state (log_request t op ep ok err code m))\<rparr>"
  by (simp add: log_request_def Let_def save_state_def)

lemma log_request_fields:
  "requests_today (state (log_request t op ep ok err code m)) = requests_today (state m)"
  "remixes_today (state (log_request t op ep ok err code m)) = remixes_today (state m)"
  "last_request_time (state (log_request t op ep ok err code m)) = last_request_time (state m)"
  "consecutive_failures (state (log_request t op ep ok err code m)) = consecutive_failures (state m)"
  "circuit_breaker_until (state (log_request t op ep ok err code m)) = circuit_breaker_until (state m)"
  "last_reset_date (state (log_request t op ep ok err code m)) = last_reset_date (state m)"
  "remix_history (state (log_request t op ep ok err code m)) = remix_history (state m)"
  "trace (log_request t op ep ok err code m) = trace m"
  by (simp_all add: log_request_def Let_def save_state_def)

lemma record_failure_trips:
  "3 \<le> consecutive_failures (state m) + 1 \<Longrightarrow>
   circuit_breaker_until (state (record_request t_request t_trip t_log op ep False err code m))
     = Some (t_trip + 15 * 60 * 1000000)"
  by (simp add: record_request_def Let_def state_save_state log_request_fields state_emit
      MAX_CONSECUTIVE_FAILURES_def CIRCUIT_BREAKER_RESET_MINUTES_def timedelta_minutes_def)

lemma record_failure_counts:
  "consecutive_failures (state (record_request t_request t_trip t_log op ep False err code m))
     = consecutive_failures (state m) + 1"
  by (simp add: record_request_def Let_def state_save_state log_request_fields state_emit)

lemma record_success_resets:
  "consecutive_failures (state (record_request t_request t_trip t_log op ep True err code m)) = 0"
  by (simp add: record_request_def Let_def state_save_state log_request_fields)

lemma breaker_denies:
  "circuit_breaker_until (state m) = Some u \<Longrightarrow> now < u \<Longrightarrow>
   \<not> fst (fst (check_circuit_breaker now now' m)) \<and> snd (check_circuit_breaker now now' m) = m"
  by (simp add: check_circuit_breaker_def Let_def)

lemma gate_denied_by_breaker:
  "\<not> fst (fst (check_circuit_breaker tb tr m)) \<Longrightarrow>
   pre_operation_check tb tr tw ans op pid skip m = check_circuit_breaker tb tr m"
  by (cases "check_circuit_breaker tb tr m") (auto simp: pre_operation_check_def)

lemma breaker_reopens:
  "circuit_breaker_until (state m) = Some u \<Longrightarrow> u \<le> now \<Longrightarrow>
   check_circuit_breaker now now' m =
     ((True, ''''), save_state (m\<lparr>state := (state m)\<lparr>circuit_breaker_until := None,
                                                     consecutive_failures := 0\<rparr>\<rparr>))"
  by (simp add: check_circuit_breaker_def Let_def)

text \<open>
  Claim C1. A recorded failure that brings the failure streak to 3 or more sets the
  breaker's reset time to the clock reading of the trip plus 15 minutes. While the reset
  time is set and the clock is before it, the circuit-breaker check denies, and so does
  the gate, and the manager stays as it is. A check made with the clock at or past the
  reset time allows, clears the reset time, sets the streak to 0 and saves. A recorded
  success sets the streak to 0 whatever the breaker's state.
\<close>

theorem circuit_breaker_lifecycle:
  "(3 \<le> consecutive_failures (state m) + 1 \<longrightarrow>
      circuit_breaker_until
        (state (record_request t_request t_trip t_log op ep False err code m))
        = Some (t_trip + 15 * 60 * 1000000))
   \<and> (circuit_breaker_until (state m) = Some u \<and> now < u \<longrightarrow>
        \<not> fst (fst (check_circuit_breaker now now' m))
        \<and> \<not> fst (fst (pre_operation_check now now' tw ans op pid skip m))
        \<and> snd (check_circuit_breaker now now' m) = m)
   \<and> (circuit_breaker_until (state m) = Some u \<and> u \<le> now \<longrightarrow>
        fst (fst (check_circuit_breaker now now' m))
        \<and> circuit_breaker_until (state (snd (check_circuit_breaker now now' m))) = None
        \<and> consecutive_failures (state (snd (check_circuit_breaker now now' m))) = 0
        \<and> state_file (snd (check_circuit_breaker now now' m))
            = Holds (state (snd (check_circuit_breaker now now' m))))
   \<and> consecutive_failures
        (state (record_request t_request t_trip t_log op ep True err code m)) = 0"
proof (intro conjI impI)
  assume "3 \<le> consecutive_failures (state m) + 1"
  then show "circuit_breaker_until
        (state (record_request t_request t_trip t_log op ep False err code m))
        = Some (t_trip + 15 * 60 * 1000000)"
    by (rule record_failure_trips)
next
  assume a: "circuit_breaker_until (state m) = Some u \<and> now < u"
  then show d: "\<not> fst (fst (check_circuit_breaker now now' m))"
    and "snd (check_circuit_breaker now now' m) = m"
    using breaker_denies [of m u now now'] by simp_all
  from gate_denied_by_breaker [OF d]
  show "\<not> fst (fst (pre_operation_check now now' tw ans op pid skip m))"
    using d by simp
next
  assume a: "circuit_breaker_until (state m) = Some u \<and> u \<le> now"
  then have r: "check_circuit_breaker now now' m =
     ((True, ''''), save_state (m\<lparr>state := (state m)\<lparr>circuit_breaker_until := None,
                                                     consecutive_failures := 0\<rparr>\<rparr>))"
    using breaker_reopens [of m u now now'] by simp
  show "fst (fst (check_circuit_breaker now now' m))"
    and "circuit_breaker_until (state (snd (check_circuit_breaker now now' m))) = None"
    and "consecutive_failures (state (snd (check_circuit_breaker now now' m))) = 0"
    and "state_file (snd (check_circuit_breaker now now' m))
            = Holds (state (snd (check_circuit_breaker now now' m)))"
    by (simp_all add: r save_state_def)
next
  show "consecutive_failures
        (state (record_request t_request t_trip t_log op ep True err code m)) = 0"
    by (rule record_success_resets)
qed

lemmas run_defs = fresh_manager_def init_def load_state_def SafetyState_default_def
  check_daily_reset_def save_state_def emit_def record_request_def log_request_def Let_def
  last_n_def MAX_CONSECUTIVE_FAILURES_def CIRCUIT_BREAKER_RESET_MINUTES_def
  timedelta_minutes_def

lemma two_failures_streak: "consecutive_failures (state two_failures) = 2"
  by (simp add: two_failures_def run_defs)

lemma three_failures_until: "circuit_breaker_until (state three_failures) = Some 900000031"
  by (simp add: three_failures_def two_failures_def run_defs)

theorem circuit_breaker_lifecycle_witness:
  "3 \<le> consecutive_failures (state two_failures) + 1
   \<and> circuit_breaker_until (state three_failures) = Some (31 + 15 * 60 * 1000000)
   \<and> (40::int) < 900000031
   \<and> \<not> fst (fst (pre_operation_check 40 41 42 ''yes'' ''remix'' (Some ''P1'') True three_failures))
   \<and> (900000031::int) \<le> 900000031
   \<and> fst (fst (check_circuit_breaker 900000031 900000032 three_failures))
   \<and> consecutive_failures (state (snd (check_circuit_breaker 900000031 900000032 three_failures))) = 0"
  using circuit_breaker_lifecycle [where m = two_failures and t_request = 30 and t_trip = 31
      and t_log = 32 and op = "''remix''" and ep = "''/ui/remix''" and err = "Some ''timeout''"
      and code = None]
    circuit_breaker_lifecycle [where m = three_failures and u = 900000031 and now = 40
      and now' = 41 and tw = 42 and ans = "''yes''" and op = "''remix''" and pid = "Some ''P1''"
      and skip = True]
    circuit_breaker_lifecycle [where m = three_failures and u = 900000031 and now = 900000031
      and now' = 900000032]
  by (simp add: two_failures_streak three_failures_until three_failures_def [symmetric])

section \<open>Idempotency ledger\<close>

lemma check_idempotency_absent:
  "remix_history s k = None \<Longrightarrow> check_idempotency ''remix'' k s = (True, None)"
  by (simp add: check_idempotency_def)

lemma check_idempotency_present:
  "remix_history s k = Some v \<Longrightarrow> v \<noteq> '''' \<Longrightarrow>
   check_idempotency ''remix'' k s = (False, Some v)"
  by (simp add: check_idempotency_def)

lemma remix_history_record_remix_success:
  "remix_history (state (record_remix_success k v m)) = (remix_history (state m))(k \<mapsto> v)"
  by (simp add: record_remix_success_def save_state_def)

lemma state_file_record_remix_success:
  "state_file (record_remix_success k v m) = Holds (state (record_remix_success k v m))"
  by (simp add: record_remix_success_def save_state_def)

lemma remix_history_check_daily_reset:
  "remix_history (state (check_daily_reset today m)) = remix_history (state m)"
  by (simp add: check_daily_reset_def save_state_def emit_def)

lemma remix_history_init_Holds:
  "remix_history (state (init (Holds s) today)) = remix_history s"
  by (simp add: init_def load_state_def remix_history_check_daily_reset)

text \<open>
  Claim C2 as stated fails for an empty stored value: after a success is recorded with
  the empty string as the new id, the key is present in the history, yet the check
  reports the operation as new and returns no existing value.
\<close>

theorem idempotency_empty_value_counterexample:
  "remix_history (state (record_remix_success ''P1'' '''' fresh_manager)) ''P1'' = Some ''''
   \<and> check_idempotency ''remix'' ''P1'' (state (record_remix_success ''P1'' '''' fresh_manager))
       = (True, None)
   \<and> check_idempotency ''remix'' ''P1'' (state (record_remix_success ''P1'' '''' fresh_manager))
       \<noteq> (False, Some '''')"
  by (simp add: check_idempotency_def remix_history_record_remix_success)

text \<open>
  Claim C2, amended. For a key absent from the remix history the idempotency check of a
  remix returns (new, no value); for a key present with a stored value that is not the
  empty string it returns (not new, that value). In particular, after a success is
  recorded for a key with a non-empty value, the check returns (not new, that value),
  and it still does in a manager constructed from the saved file on any day, and after a
  daily reset.
\<close>

theorem idempotency_roundtrip:
  "(remix_history s k = None \<longrightarrow> check_idempotency ''remix'' k s = (True, None))
   \<and> (remix_history s k = Some v \<and> v \<noteq> '''' \<longrightarrow>
        check_idempotency ''remix'' k s = (False, Some v))
   \<and> (v \<noteq> '''' \<longrightarrow>
        check_idempotency ''remix'' k (state (record_remix_success k v m)) = (False, Some v)
        \<and> check_idempotency ''remix'' k
             (state (init (state_file (record_remix_success k v m)) today)) = (False, Some v)
        \<and> check_idempotency ''remix'' k
             (state (check_daily_reset today (record_remix_success k v m))) = (False, Some v))"
proof (intro conjI impI)
  assume "remix_history s k = None"
  then show "check_idempotency ''remix'' k s = (True, None)"
    by (rule check_idempotency_absent)
next
  assume "remix_history s k = Some v \<and> v \<noteq> ''''"
  then show "check_idempotency ''remix'' k s = (False, Some v)"
    by (simp add: check_idempotency_present)
next
  assume v: "v \<noteq> ''''"
  have h: "remix_history (state (record_remix_success k v m)) k = Some v"
    by (simp add: remix_history_record_remix_success)
  from h v show "check_idempotency ''remix'' k (state (record_remix_success k v m)) = (False, Some v)"
    by (rule check_idempotency_present)
  have "remix_history (state (init (state_file (record_remix_success k v m)) today)) k = Some v"
    by (simp add: state_file_record_remix_success remix_history_init_Holds h)
  from this v show "check_idempotency ''remix'' k
             (state (init (state_file (record_remix_success k v m)) today)) = (False, Some v)"
    by (rule check_idempotency_present)
  have "remix_history (state (check_daily_reset today (record_remix_success k v m))) k = Some v"
    by (simp add: remix_history_check_daily_reset h)
  from this v show "check_idempotency ''remix'' k
             (state (check_daily_reset today (record_remix_success k v m))) = (False, Some v)"
    by (rule check_idempotency_present)
qed

lemma fresh_history: "remix_history (state fresh_manager) = Map.empty"
  by (simp add: run_defs)

lemma remixed_history: "remix_history (state remixed_manager) = [''P1'' \<mapsto> ''N1'']"
  by (simp add: remixed_manager_def remix_history_record_remix_success run_defs)

theorem idempotency_roundtrip_witness:
  "remix_history (state fresh_manager) ''P1'' = None
   \<and> check_idempotency ''remix'' ''P1'' (state fresh_manager) = (True, None)
   \<and> remix_history (state remixed_manager) ''P1'' = Some ''N1'' \<and> ''N1'' \<noteq> ''''
   \<and> check_idempotency ''remix'' ''P1'' (state remixed_manager) = (False, Some ''N1'')
   \<and> check_idempotency ''remix'' ''P1''
        (state (init (state_file (record_remix_success ''P1'' ''N1'' fresh_manager)) ''2024-01-03''))
        = (False, Some ''N1'')"
  using idempotency_roundtrip [of "state fresh_manager" "''P1''" "''N1''" fresh_manager "''2024-01-03''"]
    idempotency_roundtrip [of "state remixed_manager" "''P1''" "''N1''" fresh_manager "''2024-01-03''"]
  by (simp add: fresh_history remixed_history)

section \<open>The gate\<close>

lemma check_circuit_breaker_frame:
  "requests_today (state (snd (check_circuit_breaker tb tr m))) = requests_today (state m)"
  "remixes_today (state (snd (check_circuit_breaker tb tr m))) = remixes_today (state m)"
  "last_request_time (state (snd (check_circuit_breaker tb tr m))) = last_request_time (state m)"
  "last_reset_date (state (snd (check_circuit_breaker tb tr m))) = last_reset_date (state m)"
  "request_log (state (snd (check_circuit_breaker tb tr m))) = request_log (state m)"
  "remix_history (state (snd (check_circuit_breaker tb tr m))) = remix_history (state m)"
  "trace (snd (check_circuit_breaker tb tr m)) = trace m"
  by (simp_all add: check_circuit_breaker_def save_state_def Let_def split: option.splits)

lemma check_circuit_breaker_denial_keeps:
  "\<not> fst (fst (check_circuit_breaker tb tr m)) \<Longrightarrow> snd (check_circuit_breaker tb tr m) = m"
  by (simp add: check_circuit_breaker_def Let_def split: option.splits if_splits)

lemma state_wait_for_rate_limit: "state (wait_for_rate_limit tw m) = state m"
  by (simp add: wait_for_rate_limit_def Let_def emit_def split: option.splits)

lemma state_file_wait_for_rate_limit: "state_file (wait_for_rate_limit tw m) = state_file m"
  by (simp add: wait_for_rate_limit_def Let_def emit_def split: option.splits)

lemma trace_wait_for_rate_limit:
  "trace (wait_for_rate_limit tw m) =
     trace m @ (case last_request_time (state m) of
                  None \<Rightarrow> []
                | Some l \<Rightarrow>
                    if total_seconds (tw - l) < 2
                    then [Say_rate_wait (float_round (2 - total_seconds (tw - l))),
                          Sleep (float_round (2 - total_seconds (tw - l)))]
                    else [])"
  by (simp add: wait_for_rate_limit_def Let_def emit_def MIN_REQUEST_INTERVAL_SECONDS_def
      split: option.splits)

lemma trace_wait_after_breaker:
  "trace (wait_for_rate_limit tw (snd (check_circuit_breaker tb tr m)))
     = trace (wait_for_rate_limit tw m)"
  by (simp add: trace_wait_for_rate_limit check_circuit_breaker_frame)

lemma check_daily_limits_cong:
  "remixes_today s = remixes_today s' \<Longrightarrow> check_daily_limits op s = check_daily_limits op s'"
  by (simp add: check_daily_limits_def)

lemma check_idempotency_cong:
  "remix_history s = remix_history s' \<Longrightarrow> check_idempotency op p s = check_idempotency op p s'"
  by (simp add: check_idempotency_def)

lemma daily_after_wait:
  "check_daily_limits op (state (wait_for_rate_limit tw (snd (check_circuit_breaker tb tr m))))
     = check_daily_limits op (state m)"
  by (rule check_daily_limits_cong)
    (simp add: state_wait_for_rate_limit check_circuit_breaker_frame)

lemma idempotency_after_wait:
  "check_idempotency op p (state (wait_for_rate_limit tw (snd (check_circuit_breaker tb tr m))))
     = check_idempotency op p (state m)"
  by (rule check_idempotency_cong)
    (simp add: state_wait_for_rate_limit check_circuit_breaker_frame)

lemma counters_after_wait:
  "requests_today (state (wait_for_rate_limit tw (snd (check_circuit_breaker tb tr m))))
     = requests_today (state m)"
  "remixes_today (state (wait_for_rate_limit tw (snd (check_circuit_breaker tb tr m))))
     = remixes_today (state m)"
  by (simp_all add: state_wait_for_rate_limit check_circuit_breaker_frame)

text \<open>The gate once the circuit-breaker check has allowed.\<close>

lemma gate_after_breaker:
  assumes "fst (fst (check_circuit_breaker tb tr m))"
  shows "pre_operation_check tb tr tw ans op pid skip m =
     (let m2 = wait_for_rate_limit tw (snd (check_circuit_breaker tb tr m))
      in if \<not> fst (check_daily_limits op (state m))
         then ((False, snd (check_daily_limits op (state m))), m2)
         else
           (case (case pid of
                    None \<Rightarrow> None
                  | Some p \<Rightarrow>
                      if op = ''remix'' \<and> p \<noteq> '''' \<and> \<not> fst (check_idempotency op p (state m))
                      then Some (snd (check_idempotency op p (state m))) else None) of
              Some existing_id \<Rightarrow>
                ((False, ''Already remixed: '' @ str_opt existing_id),
                 emit (Panel_idempotency existing_id) m2)
            | None \<Rightarrow>
                (let m3 = (if 10 \<le> requests_today (state m)
                           then emit (Warn_operations (requests_today (state m))) m2
                           else m2);
                     m4 = emit Ask_proceed
                            (emit (Panel_confirmation pid (remixes_today (state m))
                                     (requests_today (state m))) m3)
                 in if op = ''remix'' \<and> \<not> skip
                    then (if lower ans \<notin> {''yes'', ''y''}
                          then ((False, ''User declined''), m4)
                          else ((True, ''''), m4))
                    else ((True, ''''), m3))))"
proof -
  obtain a r m1 where cb: "check_circuit_breaker tb tr m = ((a, r), m1)"
    by (metis surj_pair)
  with assms have a: "a" by simp
  have q2: "\<And>x. check_daily_limits x (state (wait_for_rate_limit tw m1))
              = check_daily_limits x (state m)"
    using daily_after_wait [of _ tw tb tr m] by (simp add: cb)
  have i2: "\<And>x p. check_idempotency x p (state (wait_for_rate_limit tw m1))
              = check_idempotency x p (state m)"
    using idempotency_after_wait [of _ _ tw tb tr m] by (simp add: cb)
  have c2: "requests_today (state (wait_for_rate_limit tw m1)) = requests_today (state m)"
    "remixes_today (state (wait_for_rate_limit tw m1)) = remixes_today (state m)"
    using counters_after_wait [of tw tb tr m] by (simp_all add: cb)
  show ?thesis
    by (auto simp: pre_operation_check_def cb a case_prod_beta Let_def q2 i2 c2 state_emit
        MAX_OPERATIONS_PER_SESSION_def split: option.splits)
qed

lemma gate_denied_by_quota:
  assumes "fst (fst (check_circuit_breaker tb tr m))"
    and "\<not> fst (check_daily_limits op (state m))"
  shows "fst (pre_operation_check tb tr tw ans op pid skip m) = check_daily_limits op (state m)"
    and "trace (snd (pre_operation_check tb tr tw ans op pid skip m))
           = trace (wait_for_rate_limit tw m)"
  using assms(2)
  by (simp_all add: gate_after_breaker [OF assms(1)] Let_def trace_wait_after_breaker
      prod_eq_iff)

lemma gate_denied_by_idempotency:
  assumes "fst (fst (check_circuit_breaker tb tr m))"
    and "fst (check_daily_limits op (state m))"
    and "op = ''remix''" and "pid = Some p" and "p \<noteq> ''''"
    and "check_idempotency op p (state m) = (False, x)"
  shows "fst (pre_operation_check tb tr tw ans op pid skip m)
           = (False, ''Already remixed: '' @ str_opt x)"
    and "trace (snd (pre_operation_check tb tr tw ans op pid skip m))
           = trace (wait_for_rate_limit tw m) @ [Panel_idempotency x]"
  using assms(2-6)
  by (simp_all add: gate_after_breaker [OF assms(1)] Let_def trace_wait_after_breaker trace_emit)

lemma gate_past_idempotency:
  assumes "fst (fst (check_circuit_breaker tb tr m))"
    and "fst (check_daily_limits op (state m))"
    and "\<not> (op = ''remix''
            \<and> (\<exists>p. pid = Some p \<and> p \<noteq> '''' \<and> \<not> fst (check_idempotency op p (state m))))"
  shows "op = ''remix'' \<and> \<not> skip \<Longrightarrow>
         trace (snd (pre_operation_check tb tr tw ans op pid skip m))
           = trace (wait_for_rate_limit tw m)
               @ (if 10 \<le> requests_today (state m)
                  then [Warn_operations (requests_today (state m))] else [])
               @ [Panel_confirmation pid (remixes_today (state m)) (requests_today (state m)),
                  Ask_proceed]"
    and "op = ''remix'' \<and> \<not> skip \<Longrightarrow>
         fst (pre_operation_check tb tr tw ans op pid skip m)
           = (if lower ans \<in> {''yes'', ''y''} then (True, '''') else (False, ''User declined''))"
    and "\<not> (op = ''remix'' \<and> \<not> skip) \<Longrightarrow>
         trace (snd (pre_operation_check tb tr tw ans op pid skip m))
           = trace (wait_for_rate_limit tw m)
               @ (if 10 \<le> requests_today (state m)
                  then [Warn_operations (requests_today (state m))] else [])"
    and "\<not> (op = ''remix'' \<and> \<not> skip) \<Longrightarrow>
         fst (pre_operation_check tb tr tw ans op pid skip m) = (True, '''')"
proof -
  have none: "(case pid of
                 None \<Rightarrow> None
               | Some p \<Rightarrow>
                   if op = ''remix'' \<and> p \<noteq> '''' \<and> \<not> fst (check_idempotency op p (state m))
                   then Some (snd (check_idempotency op p (state m))) else None) = None"
    using assms(3) by (cases pid) auto
  have g: "pre_operation_check tb tr tw ans op pid skip m =
      (let m2 = wait_for_rate_limit tw (snd (check_circuit_breaker tb tr m));
           m3 = (if 10 \<le> requests_today (state m)
                 then emit (Warn_operations (requests_today (state m))) m2 else m2);
           m4 = emit Ask_proceed
                  (emit (Panel_confirmation pid (remixes_today (state m))
                           (requests_today (state m))) m3)
       in if op = ''remix'' \<and> \<not> skip
          then (if lower ans \<notin> {''yes'', ''y''}
                then ((False, ''User declined''), m4) else ((True, ''''), m4))
          else ((True, ''''), m3))"
    unfolding gate_after_breaker [OF assms(1)] using assms(2)
    by (simp add: none Let_def)
  show "op = ''remix'' \<and> \<not> skip \<Longrightarrow>
         trace (snd (pre_operation_check tb tr tw ans op pid skip m))
           = trace (wait_for_rate_limit tw m)
               @ (if 10 \<le> requests_today (state m)
                  then [Warn_operations (requests_today (state m))] else [])
               @ [Panel_confirmation pid (remixes_today (state m)) (requests_today (state m)),
                  Ask_proceed]"
    unfolding g by (simp add: Let_def trace_emit trace_wait_after_breaker)
  show "op = ''remix'' \<and> \<not> skip \<Longrightarrow>
         fst (pre_operation_check tb tr tw ans op pid skip m)
           = (if lower ans \<in> {''yes'', ''y''} then (True, '''') else (False, ''User declined''))"
    unfolding g by (simp add: Let_def)
  show "\<not> (op = ''remix'' \<and> \<not> skip) \<Longrightarrow>
         trace (snd (pre_operation_check tb tr tw ans op pid skip m))
           = trace (wait_for_rate_limit tw m)
               @ (if 10 \<le> requests_today (state m)
                  then [Warn_operations (requests_today (state m))] else [])"
    unfolding g by (simp add: Let_def trace_emit trace_wait_after_breaker)
  show "\<not> (op = ''remix'' \<and> \<not> skip) \<Longrightarrow>
         fst (pre_operation_check tb tr tw ans op pid skip m) = (True, '''')"
    unfolding g by (simp add: Let_def)
qed

text \<open>
  Claim C3. The gate evaluates its checks in a fixed order and stops at the first denial.
  (1) When the circuit-breaker check denies, the gate returns that denial and leaves the
  manager as it was: nothing is printed, nobody sleeps, nobody is asked.
  (2) The rate-limit wait changes neither the state nor the file. When a last request
  time is stored and the seconds elapsed since then, read at the wait's clock reading,
  are fewer than 2, it prints one notice and sleeps for 2 seconds minus the elapsed
  seconds; otherwise, and when no last request time is stored, it does nothing.
  (3) When the breaker allows and the daily-limit check denies, the gate returns that
  denial, and the trace holds the wait and nothing after it.
  (4) When both allow and the idempotency check of a remix with a non-empty project id
  finds an existing value, the gate denies with the reason "Already remixed: " followed
  by that value, and the trace holds the wait and the idempotency panel only.
  (5, 6) Otherwise the warning is printed exactly when the request counter is at least
  10; for a remix whose confirmation is not skipped the panel and the prompt follow, and
  the gate allows on the answers "yes" and "y" (in any letter case) and denies with
  "User declined" on every other answer; in all other cases the gate allows without a
  prompt.
\<close>

theorem gate_order:
  "(\<not> fst (fst (check_circuit_breaker tb tr m)) \<longrightarrow>
      pre_operation_check tb tr tw ans op pid skip m = check_circuit_breaker tb tr m
      \<and> snd (pre_operation_check tb tr tw ans op pid skip m) = m)
   \<and> (state (wait_for_rate_limit tw m) = state m
       \<and> state_file (wait_for_rate_limit tw m) = state_file m
       \<and> trace (wait_for_rate_limit tw m)
           = trace m
               @ (case last_request_time (state m) of
                    None \<Rightarrow> []
                  | Some l \<Rightarrow>
                      if total_seconds (tw - l) < 2
                      then [Say_rate_wait (float_round (2 - total_seconds (tw - l))),
                            Sleep (float_round (2 - total_seconds (tw - l)))]
                      else []))
   \<and> (fst (fst (check_circuit_breaker tb tr m)) \<and> \<not> fst (check_daily_limits op (state m)) \<longrightarrow>
        fst (pre_operation_check tb tr tw ans op pid skip m) = check_daily_limits op (state m)
        \<and> trace (snd (pre_operation_check tb tr tw ans op pid skip m))
            = trace (wait_for_rate_limit tw m))
   \<and> (fst (fst (check_circuit_breaker tb tr m)) \<and> fst (check_daily_limits op (state m))
        \<and> op = ''remix'' \<and> pid = Some p \<and> p \<noteq> ''''
        \<and> check_idempotency op p (state m) = (False, Some x) \<longrightarrow>
        fst (pre_operation_check tb tr tw ans op pid skip m) = (False, ''Already remixed: '' @ x)
        \<and> trace (snd (pre_operation_check tb tr tw ans op pid skip m))
            = trace (wait_for_rate_limit tw m) @ [Panel_idempotency (Some x)])
   \<and> (fst (fst (check_circuit_breaker tb tr m)) \<and> fst (check_daily_limits op (state m))
        \<and> \<not> (op = ''remix''
               \<and> (\<exists>q. pid = Some q \<and> q \<noteq> '''' \<and> \<not> fst (check_idempotency op q (state m)))) \<longrightarrow>
        (op = ''remix'' \<and> \<not> skip \<longrightarrow>
           trace (snd (pre_operation_check tb tr tw ans op pid skip m))
             = trace (wait_for_rate_limit tw m)
                 @ (if 10 \<le> requests_today (state m)
                    then [Warn_operations (requests_today (state m))] else [])
                 @ [Panel_confirmation pid (remixes_today (state m)) (requests_today (state m)),
                    Ask_proceed]
           \<and> fst (pre_operation_check tb tr tw ans op pid skip m)
               = (if lower ans \<in> {''yes'', ''y''} then (True, '''')
                  else (False, ''User declined'')))
        \<and> (\<not> (op = ''remix'' \<and> \<not> skip) \<longrightarrow>
             trace (snd (pre_operation_check tb tr tw ans op pid skip m))
               = trace (wait_for_rate_limit tw m)
                   @ (if 10 \<le> requests_today (state m)
                      then [Warn_operations (requests_today (state m))] else [])
             \<and> fst (pre_operation_check tb tr tw ans op pid skip m) = (True, '''')))"
proof (intro conjI impI)
  assume d: "\<not> fst (fst (check_circuit_breaker tb tr m))"
  show e: "pre_operation_check tb tr tw ans op pid skip m = check_circuit_breaker tb tr m"
    using d by (rule gate_denied_by_breaker)
  show "snd (pre_operation_check tb tr tw ans op pid skip m) = m"
    unfolding e using d by (rule check_circuit_breaker_denial_keeps)
next
  show "state (wait_for_rate_limit tw m) = state m"
    and "state_file (wait_for_rate_limit tw m) = state_file m"
    and "trace (wait_for_rate_limit tw m)
           = trace m
               @ (case last_request_time (state m) of
                    None \<Rightarrow> []
                  | Some l \<Rightarrow>
                      if total_seconds (tw - l) < 2
                      then [Say_rate_wait (float_round (2 - total_seconds (tw - l))),
                            Sleep (float_round (2 - total_seconds (tw - l)))]
                      else [])"
    by (simp_all add: state_wait_for_rate_limit state_file_wait_for_rate_limit
        trace_wait_for_rate_limit)
next
  assume a: "fst (fst (check_circuit_breaker tb tr m)) \<and> \<not> fst (check_daily_limits op (state m))"
  then show "fst (pre_operation_check tb tr tw ans op pid skip m) = check_daily_limits op (state m)"
    and "trace (snd (pre_operation_check tb tr tw ans op pid skip m))
            = trace (wait_for_rate_limit tw m)"
    using gate_denied_by_quota [of tb tr m op tw ans pid skip] by simp_all
next
  assume a: "fst (fst (check_circuit_breaker tb tr m)) \<and> fst (check_daily_limits op (state m))
        \<and> op = ''remix'' \<and> pid = Some p \<and> p \<noteq> ''''
        \<and> check_idempotency op p (state m) = (False, Some x)"
  then have a1: "fst (fst (check_circuit_breaker tb tr m))"
    and a2: "fst (check_daily_limits op (state m))"
    and a3: "op = ''remix''" and a4: "pid = Some p" and a5: "p \<noteq> ''''"
    and a6: "check_idempotency op p (state m) = (False, Some x)"
    by blast+
  show "fst (pre_operation_check tb tr tw ans op pid skip m) = (False, ''Already remixed: '' @ x)"
    using gate_denied_by_idempotency(1) [OF a1 a2 a3 a4 a5 a6, of tw ans skip]
    by (simp add: str_opt_def)
  show "trace (snd (pre_operation_check tb tr tw ans op pid skip m))
            = trace (wait_for_rate_limit tw m) @ [Panel_idempotency (Some x)]"
    using gate_denied_by_idempotency(2) [OF a1 a2 a3 a4 a5 a6, of tw ans skip]
    by simp
next
  assume a: "fst (fst (check_circuit_breaker tb tr m)) \<and> fst (check_daily_limits op (state m))
        \<and> \<not> (op = ''remix''
               \<and> (\<exists>q. pid = Some q \<and> q \<noteq> '''' \<and> \<not> fst (check_idempotency op q (state m))))"
    and b: "op = ''remix'' \<and> \<not> skip"
  from a have a1: "fst (fst (check_circuit_breaker tb tr m))"
    and a2: "fst (check_daily_limits op (state m))"
    and a3: "\<not> (op = ''remix''
               \<and> (\<exists>q. pid = Some q \<and> q \<noteq> '''' \<and> \<not> fst (check_idempotency op q (state m))))"
    by blast+
  show "trace (snd (pre_operation_check tb tr tw ans op pid skip m))
             = trace (wait_for_rate_limit tw m)
                 @ (if 10 \<le> requests_today (state m)
                    then [Warn_operations (requests_today (state m))] else [])
                 @ [Panel_confirmation pid (remixes_today (state m)) (requests_today (state m)),
                    Ask_proceed]"
    using b by (rule gate_past_idempotency(1) [OF a1 a2 a3])
  show "fst (pre_operation_check tb tr tw ans op pid skip m)
               = (if lower ans \<in> {''yes'', ''y''} then (True, '''')
                  else (False, ''User declined''))"
    using b by (rule gate_past_idempotency(2) [OF a1 a2 a3])
next
  assume a: "fst (fst (check_circuit_breaker tb tr m)) \<and> fst (check_daily_limits op (state m))
        \<and> \<not> (op = ''remix''
               \<and> (\<exists>q. pid = Some q \<and> q \<noteq> '''' \<and> \<not> fst (check_idempotency op q (state m))))"
    and b: "\<not> (op = ''remix'' \<and> \<not> skip)"
  from a have a1: "fst (fst (check_circuit_breaker tb tr m))"
    and a2: "fst (check_daily_limits op (state m))"
    and a3: "\<not> (op = ''remix''
               \<and> (\<exists>q. pid = Some q \<and> q \<noteq> '''' \<and> \<not> fst (check_idempotency op q (state m))))"
    by blast+
  show "trace (snd (pre_operation_check tb tr tw ans op pid skip m))
               = trace (wait_for_rate_limit tw m)
                   @ (if 10 \<le> requests_today (state m)
                      then [Warn_operations (requests_today (state m))] else [])"
    using b by (rule gate_past_idempotency(3) [OF a1 a2 a3])
  show "fst (pre_operation_check tb tr tw ans op pid skip m) = (True, '''')"
    using b by (rule gate_past_idempotency(4) [OF a1 a2 a3])
qed

lemma state_quota_manager:
  "state quota_manager =
     \<lparr>requests_today = 0, remixes_today = 20, last_request_time = None,
      consecutive_failures = 0, circuit_breaker_until = None, last_reset_date = ''2024-01-02'',
      request_log = [], remix_history = Map.empty\<rparr>"
  by (simp add: quota_manager_def run_defs)

lemma state_remixed_manager:
  "state remixed_manager =
     \<lparr>requests_today = 1, remixes_today = 1, last_request_time = Some 10,
      consecutive_failures = 0, circuit_breaker_until = None, last_reset_date = ''2024-01-02'',
      request_log = [\<lparr>timestamp = 12, operation = ''remix'', endpoint = ''/projects/P1/remix'',
                       success = True, error = None, response_code = Some 200\<rparr>],
      remix_history = [''P1'' \<mapsto> ''N1'']\<rparr>"
  by (simp add: remixed_manager_def record_remix_success_def run_defs)

lemma three_failures_denied: "\<not> fst (fst (check_circuit_breaker 40 41 three_failures))"
  by (simp add: check_circuit_breaker_def three_failures_until Let_def)

lemma quota_manager_allowed: "fst (fst (check_circuit_breaker 40 41 quota_manager))"
  by (simp add: check_circuit_breaker_def state_quota_manager)

lemma remixed_manager_allowed: "fst (fst (check_circuit_breaker 40 41 remixed_manager))"
  by (simp add: check_circuit_breaker_def state_remixed_manager)

lemma lower_examples: "lower ''no'' = ''no''" "lower ''YES'' = ''yes''"
  by code_simp+

lemma float_examples:
  "total_seconds 500000 = 1 / 2" "float_round (3 / 2) = 3 / 2" "total_seconds 2000000 = 2"
  by code_simp+

lemma trace_examples:
  "trace quota_manager = [Say_new_day]" "trace remixed_manager = [Say_new_day]"
  by (simp_all add: quota_manager_def remixed_manager_def record_remix_success_def run_defs)

theorem gate_order_witness:
  "\<not> fst (fst (check_circuit_breaker 40 41 three_failures))
   \<and> snd (pre_operation_check 40 41 42 ''no'' ''remix'' (Some ''P1'') False three_failures)
       = three_failures
   \<and> fst (fst (check_circuit_breaker 40 41 quota_manager))
   \<and> \<not> fst (check_daily_limits ''remix'' (state quota_manager))
   \<and> fst (pre_operation_check 40 41 42 ''no'' ''remix'' (Some ''P1'') False quota_manager)
       = (False, ''Daily remix limit reached (20)'')
   \<and> trace (snd (pre_operation_check 40 41 42 ''no'' ''remix'' (Some ''P1'') False quota_manager))
       = [Say_new_day]
   \<and> check_idempotency ''remix'' ''P1'' (state remixed_manager) = (False, Some ''N1'')
   \<and> last_request_time (state remixed_manager) = Some 10
   \<and> fst (pre_operation_check 40 41 500010 ''no'' ''remix'' (Some ''P1'') False remixed_manager)
       = (False, ''Already remixed: N1'')
   \<and> trace (snd (pre_operation_check 40 41 500010 ''no'' ''remix'' (Some ''P1'') False
                    remixed_manager))
       = [Say_new_day, Say_rate_wait (3 / 2), Sleep (3 / 2), Panel_idempotency (Some ''N1'')]
   \<and> fst (pre_operation_check 40 41 2000010 ''no'' ''remix'' (Some ''P2'') False remixed_manager)
       = (False, ''User declined'')
   \<and> trace (snd (pre_operation_check 40 41 2000010 ''no'' ''remix'' (Some ''P2'') False
                    remixed_manager))
       = [Say_new_day, Panel_confirmation (Some ''P2'') 1 1, Ask_proceed]
   \<and> fst (pre_operation_check 40 41 500010 ''YES'' ''remix'' (Some ''P2'') False remixed_manager)
       = (True, '''')
   \<and> trace (snd (pre_operation_check 40 41 500010 ''YES'' ''remix'' (Some ''P2'') False
                    remixed_manager))
       = [Say_new_day, Say_rate_wait (3 / 2), Sleep (3 / 2),
          Panel_confirmation (Some ''P2'') 1 1, Ask_proceed]
   \<and> fst (pre_operation_check 40 41 500010 ''no'' ''probe'' None False remixed_manager)
       = (True, '''')
   \<and> trace (snd (pre_operation_check 40 41 500010 ''no'' ''probe'' None False remixed_manager))
       = [Say_new_day, Say_rate_wait (3 / 2), Sleep (3 / 2)]"
  using gate_order [where m = three_failures and tb = 40 and tr = 41 and tw = 42
      and ans = "''no''" and op = "''remix''" and pid = "Some ''P1''" and skip = False
      and p = "''P1''" and x = "''N1''"]
    gate_order [where m = quota_manager and tb = 40 and tr = 41 and tw = 42
      and ans = "''no''" and op = "''remix''" and pid = "Some ''P1''" and skip = False
      and p = "''P1''" and x = "''N1''"]
    gate_order [where m = remixed_manager and tb = 40 and tr = 41 and tw = 500010
      and ans = "''no''" and op = "''remix''" and pid = "Some ''P1''" and skip = False
      and p = "''P1''" and x = "''N1''"]
    gate_order [where m = remixed_manager and tb = 40 and tr = 41 and tw = 2000010
      and ans = "''no''" and op = "''remix''" and pid = "Some ''P2''" and skip = False
      and p = "''P2''" and x = "''N1''"]
    gate_order [where m = remixed_manager and tb = 40 and tr = 41 and tw = 500010
      and ans = "''YES''" and op = "''remix''" and pid = "Some ''P2''" and skip = False
      and p = "''P2''" and x = "''N1''"]
    gate_order [where m = remixed_manager and tb = 40 and tr = 41 and tw = 500010
      and ans = "''no''" and op = "''probe''" and pid = None and skip = False
      and p = "''P2''" and x = "''N1''"]
  by (simp add: three_failures_denied check_circuit_breaker_denial_keeps quota_manager_allowed
      remixed_manager_allowed state_quota_manager state_remixed_manager check_daily_limits_def
      check_idempotency_def MAX_REMIXES_PER_DAY_def lower_examples float_examples
      trace_examples)

text \<open>The decision of the gate as a function of the initial manager.\<close>

lemma gate_decision:
  "fst (pre_operation_check tb tr tw ans op pid skip m) =
     (if \<not> fst (fst (check_circuit_breaker tb tr m)) then fst (check_circuit_breaker tb tr m)
      else if \<not> fst (check_daily_limits op (state m))
      then (False, snd (check_daily_limits op (state m)))
      else
        (case (case pid of
                 None \<Rightarrow> None
               | Some p \<Rightarrow>
                   if op = ''remix'' \<and> p \<noteq> '''' \<and> \<not> fst (check_idempotency op p (state m))
                   then Some (snd (check_idempotency op p (state m))) else None) of
           Some existing_id \<Rightarrow> (False, ''Already remixed: '' @ str_opt existing_id)
         | None \<Rightarrow>
             if op = ''remix'' \<and> \<not> skip \<and> lower ans \<notin> {''yes'', ''y''}
             then (False, ''User declined'') else (True, '''')))"
proof (cases "fst (fst (check_circuit_breaker tb tr m))")
  case False
  then show ?thesis by (simp add: gate_denied_by_breaker)
next
  case True
  show ?thesis
    unfolding gate_after_breaker [OF True]
    by (simp add: True Let_def split: option.splits)
qed

lemma breaker_reason:
  "\<not> fst (fst (check_circuit_breaker tb tr m)) \<Longrightarrow>
   \<exists>x. fst (check_circuit_breaker tb tr m) = (False, ''Circuit breaker active: '' @ x)"
  by (auto simp: check_circuit_breaker_def Let_def split: option.splits if_splits)

lemma daily_reason:
  "\<not> fst (check_daily_limits op s) \<Longrightarrow>
   check_daily_limits op s = (False, ''Daily remix limit reached (20)'')
   \<and> op = ''remix'' \<and> 20 \<le> remixes_today s"
  by (simp add: check_daily_limits_def MAX_REMIXES_PER_DAY_def split: if_splits)

lemma gate_reason_shape:
  "fst (pre_operation_check tb tr tw ans op pid skip m) = (True, '''')
   \<or> (\<exists>x. fst (pre_operation_check tb tr tw ans op pid skip m)
             = (False, ''Circuit breaker active: '' @ x))
   \<or> (fst (pre_operation_check tb tr tw ans op pid skip m)
         = (False, ''Daily remix limit reached (20)'')
       \<and> op = ''remix'' \<and> 20 \<le> remixes_today (state m))
   \<or> (\<exists>x. fst (pre_operation_check tb tr tw ans op pid skip m)
             = (False, ''Already remixed: '' @ x))
   \<or> fst (pre_operation_check tb tr tw ans op pid skip m) = (False, ''User declined'')"
proof (cases "fst (fst (check_circuit_breaker tb tr m))")
  case False
  from breaker_reason [OF False] obtain x
    where "fst (check_circuit_breaker tb tr m) = (False, ''Circuit breaker active: '' @ x)"
    by blast
  then have "fst (pre_operation_check tb tr tw ans op pid skip m)
               = (False, ''Circuit breaker active: '' @ x)"
    by (simp add: gate_decision False)
  then show ?thesis by blast
next
  case True
  show ?thesis
  proof (cases "fst (check_daily_limits op (state m))")
    case False
    from daily_reason [OF False]
    have d: "check_daily_limits op (state m) = (False, ''Daily remix limit reached (20)'')"
      and r: "op = ''remix''" "20 \<le> remixes_today (state m)"
      by blast+
    have "fst (pre_operation_check tb tr tw ans op pid skip m)
            = (False, ''Daily remix limit reached (20)'')"
      by (simp add: gate_decision True d)
    with r show ?thesis by blast
  next
    case daily: True
    have "fst (pre_operation_check tb tr tw ans op pid skip m) = (True, '''')
          \<or> (\<exists>x. fst (pre_operation_check tb tr tw ans op pid skip m)
                    = (False, ''Already remixed: '' @ x))
          \<or> fst (pre_operation_check tb tr tw ans op pid skip m) = (False, ''User declined'')"
      unfolding gate_decision by (simp add: True daily split: option.splits)
    then show ?thesis by blast
  qed
qed

section \<open>Daily quota\<close>

lemma state_tripped_quota_manager:
  "circuit_breaker_until (state tripped_quota_manager) = Some 900000031"
  "remixes_today (state tripped_quota_manager) = 20"
  by (simp_all add: tripped_quota_manager_def three_failures_until)

lemma fmt_example: "fmt_1f (float_round (total_seconds (900000031 - 41) / 60)) = ''15.0''"
  by code_simp

text \<open>
  Claim C4 as stated fails while the circuit breaker is active: with the daily quota used
  up, the gate denies a remix, yet the reason is the circuit breaker's, not the daily limit.
\<close>

theorem quota_behind_breaker_counterexample:
  "20 \<le> remixes_today (state tripped_quota_manager)
   \<and> fst (pre_operation_check 40 41 42 ''yes'' ''remix'' (Some ''P2'') True tripped_quota_manager)
       = (False, ''Circuit breaker active: 15.0 minutes until reset'')
   \<and> snd (fst (pre_operation_check 40 41 42 ''yes'' ''remix'' (Some ''P2'') True
                 tripped_quota_manager))
       \<noteq> ''Daily remix limit reached (20)''"
  by (simp add: gate_decision check_circuit_breaker_def state_tripped_quota_manager Let_def
      fmt_example [simplified])

text \<open>
  Claim C4, amended. When the circuit-breaker check allows and the remix counter is at
  least 20, the gate denies a remix with the reason "Daily remix limit reached (20)";
  with the counter at least 20 a remix is denied in every state, by the breaker or by
  the daily limit. With the counter below 20, for instance at 19, the gate never gives
  the daily-limit reason for a remix. For an operation other than remix the daily-limit
  check allows and the gate never gives the daily-limit reason.
\<close>

theorem daily_quota_boundary:
  "(fst (fst (check_circuit_breaker tb tr m)) \<and> 20 \<le> remixes_today (state m) \<longrightarrow>
      fst (pre_operation_check tb tr tw ans ''remix'' pid skip m)
        = (False, ''Daily remix limit reached (20)''))
   \<and> (20 \<le> remixes_today (state m) \<longrightarrow>
        \<not> fst (fst (pre_operation_check tb tr tw ans ''remix'' pid skip m)))
   \<and> (remixes_today (state m) < 20 \<longrightarrow>
        check_daily_limits ''remix'' (state m) = (True, '''')
        \<and> snd (fst (pre_operation_check tb tr tw ans ''remix'' pid skip m))
            \<noteq> ''Daily remix limit reached (20)'')
   \<and> (op \<noteq> ''remix'' \<longrightarrow>
        check_daily_limits op (state m) = (True, '''')
        \<and> snd (fst (pre_operation_check tb tr tw ans op pid skip m))
            \<noteq> ''Daily remix limit reached (20)'')"
proof (intro conjI impI)
  assume a: "fst (fst (check_circuit_breaker tb tr m)) \<and> 20 \<le> remixes_today (state m)"
  then have d: "check_daily_limits ''remix'' (state m) = (False, ''Daily remix limit reached (20)'')"
    by (simp add: check_daily_limits_def MAX_REMIXES_PER_DAY_def)
  from a show "fst (pre_operation_check tb tr tw ans ''remix'' pid skip m)
        = (False, ''Daily remix limit reached (20)'')"
    by (simp add: gate_decision d)
next
  assume a: "20 \<le> remixes_today (state m)"
  then have d: "check_daily_limits ''remix'' (state m) = (False, ''Daily remix limit reached (20)'')"
    by (simp add: check_daily_limits_def MAX_REMIXES_PER_DAY_def)
  show "\<not> fst (fst (pre_operation_check tb tr tw ans ''remix'' pid skip m))"
    by (simp add: gate_decision d)
next
  assume a: "remixes_today (state m) < 20"
  then show "check_daily_limits ''remix'' (state m) = (True, '''')"
    by (simp add: check_daily_limits_def MAX_REMIXES_PER_DAY_def)
  from a gate_reason_shape [of tb tr tw ans "''remix''" pid skip m]
  show "snd (fst (pre_operation_check tb tr tw ans ''remix'' pid skip m))
            \<noteq> ''Daily remix limit reached (20)''"
    by auto
next
  assume a: "op \<noteq> ''remix''"
  then show "check_daily_limits op (state m) = (True, '''')"
    by (simp add: check_daily_limits_def)
  from a gate_reason_shape [of tb tr tw ans op pid skip m]
  show "snd (fst (pre_operation_check tb tr tw ans op pid skip m))
            \<noteq> ''Daily remix limit reached (20)''"
    by auto
qed

theorem daily_quota_boundary_witness:
  "fst (fst (check_circuit_breaker 40 41 quota_manager))
   \<and> 20 \<le> remixes_today (state quota_manager)
   \<and> fst (pre_operation_check 40 41 42 ''yes'' ''remix'' (Some ''P2'') True quota_manager)
       = (False, ''Daily remix limit reached (20)'')
   \<and> remixes_today (state (quota_manager\<lparr>state := (state quota_manager)\<lparr>remixes_today := 19\<rparr>\<rparr>)) < 20
   \<and> snd (fst (pre_operation_check 40 41 42 ''yes'' ''remix'' (Some ''P2'') True
                 (quota_manager\<lparr>state := (state quota_manager)\<lparr>remixes_today := 19\<rparr>\<rparr>)))
       \<noteq> ''Daily remix limit reached (20)''
   \<and> ''probe'' \<noteq> ''remix''
   \<and> snd (fst (pre_operation_check 40 41 42 ''yes'' ''probe'' None True quota_manager))
       \<noteq> ''Daily remix limit reached (20)''"
  using daily_quota_boundary [where m = quota_manager and tb = 40 and tr = 41 and tw = 42
      and ans = "''yes''" and pid = "Some ''P2''" and skip = True and op = "''remix''"]
    daily_quota_boundary [where m = "quota_manager\<lparr>state := (state quota_manager)\<lparr>remixes_today := 19\<rparr>\<rparr>"
      and tb = 40 and tr = 41 and tw = 42
      and ans = "''yes''" and pid = "Some ''P2''" and skip = True and op = "''remix''"]
    daily_quota_boundary [where m = quota_manager and tb = 40 and tr = 41 and tw = 42
      and ans = "''yes''" and pid = None and skip = True and op = "''probe''"]
  by (simp add: quota_manager_allowed state_quota_manager)

section \<open>Rate limit and hourly ceiling\<close>

lemma rate_limit_reason:
  "\<not> fst (check_rate_limit t s) \<Longrightarrow>
   (\<exists>x. check_rate_limit t s = (False, ''Rate limit: wait '' @ x))
   \<or> check_rate_limit t s = (False, ''Hourly limit reached (60 requests)'')"
  by (auto simp: check_rate_limit_def Let_def split: option.splits if_splits)

lemma rate_limit_at_ceiling:
  "60 \<le> requests_today s \<Longrightarrow> \<not> fst (check_rate_limit t s)"
  by (simp add: check_rate_limit_def Let_def MAX_REQUESTS_PER_HOUR_def split: option.splits)

lemma breaker_ignores_counters:
  "fst (check_circuit_breaker tb tr (m\<lparr>state := (state m)\<lparr>requests_today := n,
                                                        last_request_time := l\<rparr>\<rparr>))
     = fst (check_circuit_breaker tb tr m)"
  by (simp add: check_circuit_breaker_def Let_def split: option.splits)

lemma gate_ignores_counters:
  "fst (pre_operation_check tb tr tw ans op pid skip
          (m\<lparr>state := (state m)\<lparr>requests_today := n, last_request_time := l\<rparr>\<rparr>))
     = fst (pre_operation_check tb tr tw ans op pid skip m)"
proof -
  have d: "\<And>x. check_daily_limits x
                  (state (m\<lparr>state := (state m)\<lparr>requests_today := n, last_request_time := l\<rparr>\<rparr>))
             = check_daily_limits x (state m)"
    by (simp add: check_daily_limits_def)
  have i: "\<And>x p. check_idempotency x p
                  (state (m\<lparr>state := (state m)\<lparr>requests_today := n, last_request_time := l\<rparr>\<rparr>))
             = check_idempotency x p (state m)"
    by (simp add: check_idempotency_def)
  show ?thesis
    unfolding gate_decision breaker_ignores_counters d i by (rule refl)
qed

text \<open>
  Claim C10. The gate never returns a denial of the rate-limit check: whatever that check
  answers when it denies, for any clock reading and any state, differs from the gate's
  decision. The gate's decision does not depend on the request counter or on the time
  of the last request. Hence when the breaker, the daily limit, the idempotency check
  and the confirmation permit, the gate allows, also in a state whose request counter
  is 60 or more, where the rate-limit check itself denies.
\<close>

theorem hourly_ceiling_not_enforced:
  "(\<not> fst (check_rate_limit t s) \<longrightarrow>
      fst (pre_operation_check tb tr tw ans op pid skip m) \<noteq> check_rate_limit t s)
   \<and> fst (pre_operation_check tb tr tw ans op pid skip
             (m\<lparr>state := (state m)\<lparr>requests_today := n, last_request_time := l\<rparr>\<rparr>))
        = fst (pre_operation_check tb tr tw ans op pid skip m)
   \<and> (fst (fst (check_circuit_breaker tb tr m)) \<and> fst (check_daily_limits op (state m))
        \<and> \<not> (op = ''remix''
               \<and> (\<exists>q. pid = Some q \<and> q \<noteq> '''' \<and> \<not> fst (check_idempotency op q (state m))))
        \<and> (op = ''remix'' \<and> \<not> skip \<longrightarrow> lower ans \<in> {''yes'', ''y''}) \<longrightarrow>
        fst (pre_operation_check tb tr tw ans op pid skip m) = (True, ''''))
   \<and> (60 \<le> requests_today (state m) \<longrightarrow> \<not> fst (check_rate_limit t (state m)))"
proof (intro conjI impI)
  assume d: "\<not> fst (check_rate_limit t s)"
  from rate_limit_reason [OF d] gate_reason_shape [of tb tr tw ans op pid skip m]
  show "fst (pre_operation_check tb tr tw ans op pid skip m) \<noteq> check_rate_limit t s"
    by auto
next
  show "fst (pre_operation_check tb tr tw ans op pid skip
             (m\<lparr>state := (state m)\<lparr>requests_today := n, last_request_time := l\<rparr>\<rparr>))
        = fst (pre_operation_check tb tr tw ans op pid skip m)"
    by (rule gate_ignores_counters)
next
  assume a: "fst (fst (check_circuit_breaker tb tr m)) \<and> fst (check_daily_limits op (state m))
        \<and> \<not> (op = ''remix''
               \<and> (\<exists>q. pid = Some q \<and> q \<noteq> '''' \<and> \<not> fst (check_idempotency op q (state m))))
        \<and> (op = ''remix'' \<and> \<not> skip \<longrightarrow> lower ans \<in> {''yes'', ''y''})"
  then have a1: "fst (fst (check_circuit_breaker tb tr m))"
    and a2: "fst (check_daily_limits op (state m))"
    and a3: "\<not> (op = ''remix''
               \<and> (\<exists>q. pid = Some q \<and> q \<noteq> '''' \<and> \<not> fst (check_idempotency op q (state m))))"
    and a4: "op = ''remix'' \<and> \<not> skip \<longrightarrow> lower ans \<in> {''yes'', ''y''}"
    by blast+
  show "fst (pre_operation_check tb tr tw ans op pid skip m) = (True, '''')"
  proof (cases "op = ''remix'' \<and> \<not> skip")
    case True
    from gate_past_idempotency(2) [OF a1 a2 a3 True, of tw ans] a4 True
    show ?thesis by simp
  next
    case False
    from gate_past_idempotency(4) [OF a1 a2 a3 False, of tw ans]
    show ?thesis .
  qed
next
  assume "60 \<le> requests_today (state m)"
  then show "\<not> fst (check_rate_limit t (state m))"
    by (rule rate_limit_at_ceiling)
qed

lemma lower_y: "lower ''y'' = ''y''"
  by code_simp

lemma state_busy_manager:
  "state busy_manager =
     \<lparr>requests_today = 60, remixes_today = 0, last_request_time = None,
      consecutive_failures = 0, circuit_breaker_until = None, last_reset_date = ''2024-01-02'',
      request_log = [], remix_history = Map.empty\<rparr>"
  by (simp add: busy_manager_def run_defs)

lemma busy_manager_allowed: "fst (fst (check_circuit_breaker 40 41 busy_manager))"
  by (simp add: check_circuit_breaker_def state_busy_manager)

lemma interval_example:
  "total_seconds 30 < 2"
  "fmt_1f (float_round (2 - total_seconds 30)) = ''2.0''"
  by code_simp+

theorem hourly_ceiling_not_enforced_witness:
  "60 \<le> requests_today (state busy_manager)
   \<and> check_rate_limit 40 (state busy_manager) = (False, ''Hourly limit reached (60 requests)'')
   \<and> fst (pre_operation_check 40 41 42 ''y'' ''remix'' (Some ''P1'') False busy_manager)
       \<noteq> check_rate_limit 40 (state busy_manager)
   \<and> fst (fst (check_circuit_breaker 40 41 busy_manager))
   \<and> fst (check_daily_limits ''remix'' (state busy_manager))
   \<and> fst (pre_operation_check 40 41 42 ''y'' ''remix'' (Some ''P1'') False busy_manager)
       = (True, '''')
   \<and> check_rate_limit 40 (state remixed_manager)
       = (False, ''Rate limit: wait 2.0s before next request'')
   \<and> fst (pre_operation_check 40 41 42 ''y'' ''remix'' (Some ''P2'') False remixed_manager)
       = (True, '''')"
  using hourly_ceiling_not_enforced [where m = busy_manager and s = "state busy_manager"
      and t = 40 and tb = 40 and tr = 41 and tw = 42 and ans = "''y''" and op = "''remix''"
      and pid = "Some ''P1''" and skip = False and n = 0 and l = None]
    hourly_ceiling_not_enforced [where m = remixed_manager and s = "state remixed_manager"
      and t = 40 and tb = 40 and tr = 41 and tw = 42 and ans = "''y''" and op = "''remix''"
      and pid = "Some ''P2''" and skip = False and n = 0 and l = None]
  by (simp add: busy_manager_allowed remixed_manager_allowed state_busy_manager
      state_remixed_manager interval_example check_rate_limit_def
      check_daily_limits_def check_idempotency_def MAX_REQUESTS_PER_HOUR_def
      MAX_REMIXES_PER_DAY_def MIN_REQUEST_INTERVAL_SECONDS_def Let_def lower_y)

section \<open>When the rollover runs\<close>

lemma gate_state:
  "state (snd (pre_operation_check tb tr tw ans op pid skip m))
     = state (snd (check_circuit_breaker tb tr m))"
proof (cases "fst (fst (check_circuit_breaker tb tr m))")
  case False
  then show ?thesis by (simp add: gate_denied_by_breaker)
next
  case True
  show ?thesis
    unfolding gate_after_breaker [OF True]
    by (simp add: Let_def state_emit state_wait_for_rate_limit split: option.splits)
qed

lemma gate_frame:
  "requests_today (state (snd (pre_operation_check tb tr tw ans op pid skip m)))
     = requests_today (state m)"
  "remixes_today (state (snd (pre_operation_check tb tr tw ans op pid skip m)))
     = remixes_today (state m)"
  "request_log (state (snd (pre_operation_check tb tr tw ans op pid skip m)))
     = request_log (state m)"
  "last_reset_date (state (snd (pre_operation_check tb tr tw ans op pid skip m)))
     = last_reset_date (state m)"
  "remix_history (state (snd (pre_operation_check tb tr tw ans op pid skip m)))
     = remix_history (state m)"
  "last_request_time (state (snd (pre_operation_check tb tr tw ans op pid skip m)))
     = last_request_time (state m)"
  by (simp_all add: gate_state check_circuit_breaker_frame)

text \<open>
  Claim C6 as stated fails: the gate is given no date and performs no rollover. On a
  manager whose state was last reset on an earlier day, a gate evaluation leaves both
  counters, the request log and the reset date as they were and writes nothing to the
  file.
\<close>

theorem gate_without_rollover_counterexample:
  "last_reset_date (state yesterday_manager) \<noteq> ''2024-01-02''
   \<and> requests_today (state (snd (pre_operation_check 40 41 42 ''yes'' ''remix'' (Some ''P2'') True
                                    yesterday_manager))) = 7
   \<and> remixes_today (state (snd (pre_operation_check 40 41 42 ''yes'' ''remix'' (Some ''P2'') True
                                    yesterday_manager))) = 4
   \<and> request_log (state (snd (pre_operation_check 40 41 42 ''yes'' ''remix'' (Some ''P2'') True
                                    yesterday_manager))) = [example_entry 0]
   \<and> last_reset_date (state (snd (pre_operation_check 40 41 42 ''yes'' ''remix'' (Some ''P2'') True
                                    yesterday_manager))) = ''2024-01-01''"
  by (simp add: gate_frame) (simp add: yesterday_manager_def)

text \<open>
  Claim C6, amended. The rollover check runs when the manager is constructed, after the
  state is loaded and so before any gate check made with that manager: when the loaded
  state's last reset date differs from today, both daily counters are 0, the request log
  is empty and the state is saved, and in every case the last reset date of a constructed
  manager is today. The gate itself performs no rollover: it leaves both counters, the
  request log and the last reset date as they are.
\<close>

theorem rollover_at_construction:
  "(last_reset_date (fst (load_state f)) \<noteq> today \<longrightarrow>
      requests_today (state (init f today)) = 0
      \<and> remixes_today (state (init f today)) = 0
      \<and> request_log (state (init f today)) = []
      \<and> state_file (init f today) = Holds (state (init f today)))
   \<and> last_reset_date (state (init f today)) = today
   \<and> requests_today (state (snd (pre_operation_check tb tr tw ans op pid skip m)))
        = requests_today (state m)
   \<and> remixes_today (state (snd (pre_operation_check tb tr tw ans op pid skip m)))
        = remixes_today (state m)
   \<and> request_log (state (snd (pre_operation_check tb tr tw ans op pid skip m)))
        = request_log (state m)
   \<and> last_reset_date (state (snd (pre_operation_check tb tr tw ans op pid skip m)))
        = last_reset_date (state m)"
  by (simp add: gate_frame) (simp add: init_def check_daily_reset_def save_state_def emit_def)

theorem rollover_at_construction_witness:
  "last_reset_date (fst (load_state (Holds (state yesterday_manager)))) \<noteq> ''2024-01-02''
   \<and> requests_today (state (init (Holds (state yesterday_manager)) ''2024-01-02'')) = 0
   \<and> remixes_today (state (init (Holds (state yesterday_manager)) ''2024-01-02'')) = 0
   \<and> request_log (state (init (Holds (state yesterday_manager)) ''2024-01-02'')) = []
   \<and> last_reset_date (state (init (Holds (state yesterday_manager)) ''2024-01-02''))
       = ''2024-01-02''"
  using rollover_at_construction [where f = "Holds (state yesterday_manager)"
      and today = "''2024-01-02''"]
  by (simp add: load_state_def yesterday_manager_def)

section \<open>Retry policy\<close>

lemma startswith_iff: "startswith s p \<longleftrightarrow> (\<exists>v. s = p @ v)"
  by (induction s p rule: startswith.induct) auto

lemma py_in_iff: "py_in sub s \<longleftrightarrow> (\<exists>u v. s = u @ sub @ v)"
proof (induction s)
  case Nil
  then show ?case by auto
next
  case (Cons c cs)
  show ?case
  proof
    assume "py_in sub (c # cs)"
    then consider "startswith (c # cs) sub" | "py_in sub cs" by auto
    then show "\<exists>u v. c # cs = u @ sub @ v"
    proof cases
      case 1
      then obtain v where "c # cs = sub @ v" by (auto simp: startswith_iff)
      then have "c # cs = [] @ sub @ v" by simp
      then show ?thesis by blast
    next
      case 2
      with Cons.IH obtain u v where "cs = u @ sub @ v" by blast
      then have "c # cs = (c # u) @ sub @ v" by simp
      then show ?thesis by blast
    qed
  next
    assume "\<exists>u v. c # cs = u @ sub @ v"
    then obtain u v where e: "c # cs = u @ sub @ v" by blast
    show "py_in sub (c # cs)"
    proof (cases u)
      case Nil
      with e have "startswith (c # cs) sub" by (auto simp: startswith_iff)
      then show ?thesis by simp
    next
      case (Cons a u')
      with e have "cs = u' @ sub @ v" by simp
      with Cons.IH have "py_in sub cs" by blast
      then show ?thesis by simp
    qed
  qed
qed

lemma should_retry_exhausted: "2 \<le> attempt \<Longrightarrow> \<not> should_retry attempt err"
  by (simp add: should_retry_def MAX_RETRIES_def)

lemma should_retry_classified:
  assumes "pat \<in> {''403'', ''401'', ''404'', ''already remixed'', ''supabase''}"
    and "lower e = u @ pat @ v"
  shows "\<not> should_retry attempt (Some e)"
proof -
  from assms(2) have "py_in pat (lower e)"
    unfolding py_in_iff by blast
  with assms(1) have m: "list_ex (\<lambda>pat. py_in pat (lower e)) no_retry_errors"
    by (auto simp: no_retry_errors_def)
  from assms have "lower e \<noteq> ''''" by auto
  then have "e \<noteq> ''''" by (auto simp: lower_def)
  with m show ?thesis by (simp add: should_retry_def)
qed

lemma get_retry_delay_in_range:
  "- 1074 \<le> attempt \<Longrightarrow> attempt \<le> 1023 \<Longrightarrow>
   get_retry_delay attempt = Inr (min (2 powi attempt) 30)"
  by (simp add: get_retry_delay_def float_pow2_def RETRY_BACKOFF_BASE_def RETRY_BACKOFF_MAX_def)

text \<open>
  Claim C7 as stated fails for large attempt numbers: at attempt 1024 the float power
  overflows and the call raises instead of returning the cap of 30 seconds.
\<close>

theorem retry_delay_overflow_counterexample:
  "get_retry_delay 1024 = Inl OverflowError
   \<and> get_retry_delay 1024 \<noteq> Inr (min (2 powi 1024) 30)"
  by (simp add: get_retry_delay_def float_pow2_def)

text \<open>
  Claim C7, amended. \<open>should_retry\<close> and \<open>get_retry_delay\<close> are functions of their
  arguments alone. For every attempt of 2 or more and every error text, \<open>should_retry\<close>
  is false. For every attempt it is false when the lower-cased error text contains one of
  "403", "401", "404", "already remixed", "supabase"; so it is false at attempt 0 for
  "401 unauthorized", and at attempt 2 for "timeout". For every attempt from -1074 to
  1023, \<open>get_retry_delay\<close> returns the smaller of 2 to the power of the attempt and 30;
  so it returns 8 at attempt 3.
\<close>

theorem retry_policy:
  "(2 \<le> attempt \<longrightarrow> \<not> should_retry attempt err)
   \<and> (pat \<in> {''403'', ''401'', ''404'', ''already remixed'', ''supabase''}
        \<and> lower e = u @ pat @ v \<longrightarrow> \<not> should_retry attempt (Some e))
   \<and> \<not> should_retry 0 (Some ''401 unauthorized'')
   \<and> \<not> should_retry 2 (Some ''timeout'')
   \<and> (- 1074 \<le> attempt \<and> attempt \<le> 1023 \<longrightarrow>
        get_retry_delay attempt = Inr (min (2 powi attempt) 30))
   \<and> get_retry_delay 3 = Inr 8"
proof (intro conjI impI)
  assume "2 \<le> attempt"
  then show "\<not> should_retry attempt err" by (rule should_retry_exhausted)
next
  assume "pat \<in> {''403'', ''401'', ''404'', ''already remixed'', ''supabase''}
        \<and> lower e = u @ pat @ v"
  then show "\<not> should_retry attempt (Some e)"
    using should_retry_classified [of pat e u v attempt] by blast
next
  show "\<not> should_retry 0 (Some ''401 unauthorized'')"
    by (simp add: should_retry_def MAX_RETRIES_def no_retry_errors_def lower_def lower_char_def)
next
  show "\<not> should_retry 2 (Some ''timeout'')"
    by (simp add: should_retry_def MAX_RETRIES_def)
next
  assume "- 1074 \<le> attempt \<and> attempt \<le> 1023"
  then show "get_retry_delay attempt = Inr (min (2 powi attempt) 30)"
    by (simp add: get_retry_delay_in_range)
next
  show "get_retry_delay 3 = Inr 8"
    by (simp add: get_retry_delay_def float_pow2_def RETRY_BACKOFF_BASE_def RETRY_BACKOFF_MAX_def)
qed

lemma lower_forbidden: "lower ''HTTP 403 Forbidden'' = ''http '' @ ''403'' @ '' forbidden''"
  by code_simp

theorem retry_policy_witness:
  "(2::int) \<le> 5 \<and> \<not> should_retry 5 None
   \<and> ''403'' \<in> {''403'', ''401'', ''404'', ''already remixed'', ''supabase''}
   \<and> lower ''HTTP 403 Forbidden'' = ''http '' @ ''403'' @ '' forbidden''
   \<and> \<not> should_retry 0 (Some ''HTTP 403 Forbidden'')
   \<and> (- 1074::int) \<le> 5 \<and> (5::int) \<le> 1023
   \<and> get_retry_delay 5 = Inr 30
   \<and> get_retry_delay (- 1) = Inr (1 / 2)"
  using retry_policy [where attempt = 5 and err = None and pat = "''403''"
      and e = "''HTTP 403 Forbidden''" and u = "''http ''" and v = "'' forbidden''"]
    retry_policy [where attempt = 0 and err = None and pat = "''403''"
      and e = "''HTTP 403 Forbidden''" and u = "''http ''" and v = "'' forbidden''"]
    retry_policy [where attempt = "- 1" and err = None and pat = "''403''"
      and e = "''HTTP 403 Forbidden''" and u = "''http ''" and v = "'' forbidden''"]
  by (simp add: lower_forbidden)

section \<open>The workflow and the gate\<close>

lemma transport_calls_emit:
  "transport_calls (emit e m) = transport_calls m @ (if is_call e then [e] else [])"
  by (simp add: transport_calls_def emit_def)

lemma transport_calls_wait:
  "transport_calls (wait_for_rate_limit tw m) = transport_calls m"
  by (simp add: transport_calls_def trace_wait_for_rate_limit split: option.splits)

lemma transport_calls_breaker:
  "transport_calls (snd (check_circuit_breaker tb tr m)) = transport_calls m"
  by (simp add: transport_calls_def check_circuit_breaker_frame)

lemma transport_calls_gate:
  "transport_calls (snd (pre_operation_check tb tr tw ans op pid skip m)) = transport_calls m"
proof (cases "fst (fst (check_circuit_breaker tb tr m))")
  case False
  then show ?thesis
    by (simp add: gate_denied_by_breaker transport_calls_breaker)
next
  case True
  show ?thesis
    unfolding gate_after_breaker [OF True]
    by (simp add: Let_def transport_calls_emit transport_calls_wait transport_calls_breaker
        split: option.splits)
qed

lemma record_request_frame:
  "transport_calls (record_request t1 t2 t3 op ep ok err code m) = transport_calls m"
  "remix_history (state (record_request t1 t2 t3 op ep ok err code m)) = remix_history (state m)"
  "remixes_today (state (record_request t1 t2 t3 op ep ok err code m)) = remixes_today (state m)"
  "requests_today (state (record_request t1 t2 t3 op ep ok err code m))
     = requests_today (state m) + 1"
  "request_log (state (record_request t1 t2 t3 op ep ok err code m))
     = last_n 100 (request_log (state m)
         @ [\<lparr>timestamp = t3, operation = op, endpoint = ep, success = ok, error = err,
              response_code = code\<rparr>])"
  by (simp_all add: record_request_def Let_def state_save_state log_request_fields state_emit
      request_log_log_request transport_calls_def trace_save_state trace_emit)

lemma snd_request:
  "\<exists>ok err code.
     snd (request rt reply verb ep payload opn m)
       = record_request (at_request rt) (at_trip rt) (at_log rt) opn ep ok err code
           (emit (Http verb (BASE_URL @ ep) payload) (wait_for_rate_limit (at_wait rt) m))"
  by (cases reply) (auto simp: request_def Let_def)

lemma request_frame:
  "transport_calls (snd (request rt reply verb ep payload opn m))
     = transport_calls m @ [Http verb (BASE_URL @ ep) payload]"
  "remix_history (state (snd (request rt reply verb ep payload opn m)))
     = remix_history (state m)"
  "remixes_today (state (snd (request rt reply verb ep payload opn m)))
     = remixes_today (state m)"
  "requests_today (state (snd (request rt reply verb ep payload opn m)))
     = requests_today (state m) + 1"
  "length (request_log (state (snd (request rt reply verb ep payload opn m))))
     = min (length (request_log (state m)) + 1) 100"
  using snd_request [of rt reply verb ep payload opn m]
  by (auto simp: record_request_frame transport_calls_emit transport_calls_wait state_emit
      state_wait_for_rate_limit last_n_def)

lemma snd_get_project:
  "snd (get_project t_wait rt reply pid m)
     = snd (request rt reply ''GET'' (''/projects/'' @ pid) None ''get_project''
              (wait_for_rate_limit t_wait m))"
  by (simp add: get_project_def Let_def split: prod.splits sum.splits json_body.splits)

lemma get_project_frame:
  "transport_calls (snd (get_project t_wait rt reply pid m))
     = transport_calls m @ [Http ''GET'' (''https://api.lovable.dev/projects/'' @ pid) None]"
  "remix_history (state (snd (get_project t_wait rt reply pid m))) = remix_history (state m)"
  "remixes_today (state (snd (get_project t_wait rt reply pid m))) = remixes_today (state m)"
  "requests_today (state (snd (get_project t_wait rt reply pid m)))
     = requests_today (state m) + 1"
  "length (request_log (state (snd (get_project t_wait rt reply pid m))))
     = min (length (request_log (state m)) + 1) 100"
  by (simp_all add: snd_get_project request_frame transport_calls_wait
      state_wait_for_rate_limit BASE_URL_def)

lemma remix_project_denied:
  assumes "\<not> fst (fst (pre_operation_check (at_breaker gt) (at_remaining gt) (at_gate_wait gt)
                         answer ''remix'' (Some pid) skip m))"
  shows "remix_project gt answer rt reply pid include_history skip m =
           (failed_result
              (''Operation blocked: ''
                 @ snd (fst (pre_operation_check (at_breaker gt) (at_remaining gt)
                               (at_gate_wait gt) answer ''remix'' (Some pid) skip m))),
            snd (pre_operation_check (at_breaker gt) (at_remaining gt) (at_gate_wait gt)
                   answer ''remix'' (Some pid) skip m))"
proof -
  obtain a r m1 where p: "pre_operation_check (at_breaker gt) (at_remaining gt) (at_gate_wait gt)
                           answer ''remix'' (Some pid) skip m = ((a, r), m1)"
    by (metis surj_pair)
  with assms have "\<not> a" by simp
  then show ?thesis by (simp add: remix_project_def p)
qed

lemma blocked_text: "py_in ''Operation blocked'' (''Operation blocked: '' @ r)"
  unfolding py_in_iff
proof (intro exI)
  show "''Operation blocked: '' @ r = [] @ ''Operation blocked'' @ ('': '' @ r)" by simp
qed

lemma truthy_blocked: "truthy (Some (c # s))"
  by (simp add: truthy_def)

lemma str_timeout: "str_int REQUEST_TIMEOUT = ''30''"
  unfolding REQUEST_TIMEOUT_def by code_simp

lemma request_log_request:
  "request_log (state (snd (request rt reply verb ep payload opn m)))
     = last_n 100
         (request_log (state m)
            @ [\<lparr>timestamp = at_log rt, operation = opn, endpoint = ep,
                 success = (case reply of
                              Replied r \<Rightarrow> status_code r \<in> {200, 201}
                            | Timed_out msg \<Rightarrow> False
                            | Request_failed msg \<Rightarrow> False),
                 error = (case reply of
                            Replied r \<Rightarrow> None
                          | Timed_out msg \<Rightarrow> Some ''Request timeout after 30s''
                          | Request_failed msg \<Rightarrow> Some (''Request failed: '' @ msg)),
                 response_code = (case reply of
                                    Replied r \<Rightarrow> Some (status_code r)
                                  | Timed_out msg \<Rightarrow> None
                                  | Request_failed msg \<Rightarrow> None)\<rparr>])"
  by (cases reply)
    (simp_all add: request_def Let_def record_request_frame state_emit
      state_wait_for_rate_limit str_timeout)

lemma request_log_get_project:
  "request_log (state (snd (get_project t_wait rt reply pid m)))
     = last_n 100
         (request_log (state m)
            @ [\<lparr>timestamp = at_log rt, operation = ''get_project'',
                 endpoint = ''/projects/'' @ pid,
                 success = (case reply of
                              Replied r \<Rightarrow> status_code r \<in> {200, 201}
                            | Timed_out msg \<Rightarrow> False
                            | Request_failed msg \<Rightarrow> False),
                 error = (case reply of
                            Replied r \<Rightarrow> None
                          | Timed_out msg \<Rightarrow> Some ''Request timeout after 30s''
                          | Request_failed msg \<Rightarrow> Some (''Request failed: '' @ msg)),
                 response_code = (case reply of
                                    Replied r \<Rightarrow> Some (status_code r)
                                  | Timed_out msg \<Rightarrow> None
                                  | Request_failed msg \<Rightarrow> None)\<rparr>])"
  unfolding snd_get_project request_log_request
  by (simp add: state_wait_for_rate_limit)

subsection \<open>Authentication before the gate\<close>

lemma validate_session_frame:
  "state (snd (validate_session env v m)) = state m"
  "state_file (snd (validate_session env v m)) = state_file m"
  "trace (snd (validate_session env v m))
     = trace m @ (if v = Driver_error then [] else [Browser_launch])"
  by (simp_all add: validate_session_def emit_def split: validation_outcome.splits)

lemma login_frame:
  "state (snd (login_with_email_password env m)) = state m"
  "state_file (snd (login_with_email_password env m)) = state_file m"
  "trace (snd (login_with_email_password env m)) = trace m
   \<or> trace (snd (login_with_email_password env m)) = trace m @ [Browser_launch]"
  by (simp_all add: login_with_email_password_def emit_def split: login_outcome.splits)

lemma login_and_extract_frame:
  "state (snd (login_and_extract_token env m)) = state m"
  "state_file (snd (login_and_extract_token env m)) = state_file m"
  "trace (snd (login_and_extract_token env m)) = trace m
   \<or> trace (snd (login_and_extract_token env m)) = trace m @ [Browser_launch]
   \<or> trace (snd (login_and_extract_token env m)) = trace m @ [Browser_launch, Browser_launch]"
proof -
  obtain r m1 where v: "validate_session env (validation_login env) m = (r, m1)"
    by (metis surj_pair)
  have m1: "state m1 = state m" "state_file m1 = state_file m"
    "trace m1 = trace m @ (if validation_login env = Driver_error then [] else [Browser_launch])"
    using validate_session_frame [of env "validation_login env" m] by (simp_all add: v)
  show "state (snd (login_and_extract_token env m)) = state m"
    by (auto simp: login_and_extract_token_def v m1 login_frame
        split: prod.splits option.splits)
  show "state_file (snd (login_and_extract_token env m)) = state_file m"
    by (auto simp: login_and_extract_token_def v m1 login_frame
        split: prod.splits option.splits)
  show "trace (snd (login_and_extract_token env m)) = trace m
   \<or> trace (snd (login_and_extract_token env m)) = trace m @ [Browser_launch]
   \<or> trace (snd (login_and_extract_token env m)) = trace m @ [Browser_launch, Browser_launch]"
    using login_frame(3) [of env m1] login_frame(3) [of env m]
    by (auto simp: login_and_extract_token_def v m1 truthy_def
        split: prod.splits option.splits if_splits)
qed

lemma auth_frame:
  "state (snd (get_or_refresh_token env m)) = state m"
  "state_file (snd (get_or_refresh_token env m)) = state_file m"
  "trace (snd (get_or_refresh_token env m)) = trace m
   \<or> trace (snd (get_or_refresh_token env m)) = trace m @ [Browser_launch]
   \<or> trace (snd (get_or_refresh_token env m)) = trace m @ [Browser_launch, Browser_launch]
   \<or> trace (snd (get_or_refresh_token env m))
        = trace m @ [Browser_launch, Browser_launch, Browser_launch]"
proof -
  obtain r m1 where v: "validate_session env (validation_saved env) m = (r, m1)"
    by (metis surj_pair)
  have m1: "state m1 = state m" "state_file m1 = state_file m"
    "trace m1 = trace m @ (if validation_saved env = Driver_error then [] else [Browser_launch])"
    using validate_session_frame [of env "validation_saved env" m] by (simp_all add: v)
  show "state (snd (get_or_refresh_token env m)) = state m"
    by (auto simp: get_or_refresh_token_def v m1 login_and_extract_frame
        split: prod.splits option.splits)
  show "state_file (snd (get_or_refresh_token env m)) = state_file m"
    by (auto simp: get_or_refresh_token_def v m1 login_and_extract_frame
        split: prod.splits option.splits)
  show "trace (snd (get_or_refresh_token env m)) = trace m
   \<or> trace (snd (get_or_refresh_token env m)) = trace m @ [Browser_launch]
   \<or> trace (snd (get_or_refresh_token env m)) = trace m @ [Browser_launch, Browser_launch]
   \<or> trace (snd (get_or_refresh_token env m))
        = trace m @ [Browser_launch, Browser_launch, Browser_launch]"
    using login_and_extract_frame(3) [of env m] login_and_extract_frame(3) [of env m1]
    by (auto simp: get_or_refresh_token_def v m1 truthy_def
        split: prod.splits option.splits if_splits)
qed

lemma auth_calls:
  "transport_calls (snd (get_or_refresh_token env m)) = transport_calls m
   \<or> transport_calls (snd (get_or_refresh_token env m)) = transport_calls m @ [Browser_launch]
   \<or> transport_calls (snd (get_or_refresh_token env m))
        = transport_calls m @ [Browser_launch, Browser_launch]
   \<or> transport_calls (snd (get_or_refresh_token env m))
        = transport_calls m @ [Browser_launch, Browser_launch, Browser_launch]"
  using auth_frame(3) [of env m] unfolding transport_calls_def by auto

lemma create_remix_denied:
  assumes "fst (get_or_refresh_token env m) = Inr (token, auth_error)"
    and "\<not> truthy auth_error"
    and "\<not> fst (fst (pre_operation_check (at_breaker gt) (at_remaining gt) (at_gate_wait gt)
                         answer ''remix'' (Some pid) skip
                         (snd (get_project t_wait rt_get reply_get pid
                                 (snd (get_or_refresh_token env m))))))"
  shows "create_remix env t_wait rt_get reply_get gt answer rt reply t_result
           pid include_history skip m =
           (Inr None,
            emit (Say_blocked
                    (''Operation blocked: ''
                       @ snd (fst (pre_operation_check (at_breaker gt) (at_remaining gt)
                                     (at_gate_wait gt) answer ''remix'' (Some pid) skip
                                     (snd (get_project t_wait rt_get reply_get pid
                                             (snd (get_or_refresh_token env m))))))))
              (snd (pre_operation_check (at_breaker gt) (at_remaining gt) (at_gate_wait gt)
                      answer ''remix'' (Some pid) skip
                      (snd (get_project t_wait rt_get reply_get pid
                              (snd (get_or_refresh_token env m)))))))"
proof -
  obtain m0 where a: "get_or_refresh_token env m = (Inr (token, auth_error), m0)"
    using assms(1) by (cases "get_or_refresh_token env m") auto
  obtain sp m1 where g: "get_project t_wait rt_get reply_get pid m0 = (sp, m1)"
    by (metis surj_pair)
  with assms(3) a have d: "\<not> fst (fst (pre_operation_check (at_breaker gt) (at_remaining gt)
                         (at_gate_wait gt) answer ''remix'' (Some pid) skip m1))"
    by simp
  show ?thesis
    by (simp add: create_remix_def a assms(2) g remix_project_denied [OF d] failed_result_def
        truthy_blocked str_opt_def blocked_text)
qed

subsection \<open>The second remix of P1\<close>

lemma token_env_auth: "get_or_refresh_token token_env m = (Inr (''token'', None), m)"
  by (simp add: get_or_refresh_token_def token_env_def truthy_def str_opt_def)

lemma session_env_auth:
  "get_or_refresh_token session_env m = (Inr (''token'', None), emit Browser_launch m)"
  by (simp add: get_or_refresh_token_def validate_session_def session_env_def truthy_def)

lemma login_env_auth:
  "get_or_refresh_token login_env m
     = (Inr (''token'', None), emit Browser_launch (emit Browser_launch (emit Browser_launch m)))"
  by (simp add: get_or_refresh_token_def login_and_extract_token_def
      login_with_email_password_def validate_session_def login_env_def truthy_def)

lemma calls_remixed_manager: "transport_calls remixed_manager = []"
  by (simp add: transport_calls_def remixed_manager_def record_remix_success_def run_defs)

lemma state_after_verification:
  assumes "state m0 = state remixed_manager"
  shows "remix_history (state (snd (get_project 3000000 verify_times not_found ''P1'' m0)))
           = [''P1'' \<mapsto> ''N1'']"
    and "remixes_today (state (snd (get_project 3000000 verify_times not_found ''P1'' m0))) = 1"
    and "circuit_breaker_until
           (state (snd (get_project 3000000 verify_times not_found ''P1'' m0))) = None"
  by (simp_all add: get_project_frame assms state_remixed_manager)
    (simp add: snd_get_project request_def not_found_def Let_def record_request_def
      log_request_fields state_save_state state_emit state_wait_for_rate_limit
      assms state_remixed_manager MAX_CONSECUTIVE_FAILURES_def)

lemma second_gate_decision:
  assumes "state m0 = state remixed_manager"
  shows "fst (pre_operation_check (at_breaker second_gate_times) (at_remaining second_gate_times)
                (at_gate_wait second_gate_times) ''yes'' ''remix'' (Some ''P1'') True
                (snd (get_project 3000000 verify_times not_found ''P1'' m0)))
           = (False, ''Already remixed: N1'')"
  by (simp add: gate_decision check_circuit_breaker_def check_daily_limits_def
      check_idempotency_def state_after_verification [OF assms] MAX_REMIXES_PER_DAY_def
      str_opt_def)

lemma log_after_verification:
  "last_n 100
     [\<lparr>timestamp = 12, operation = ''remix'', endpoint = ''/projects/P1/remix'',
        success = True, error = None, response_code = Some 200\<rparr>,
      \<lparr>timestamp = at_log verify_times, operation = ''get_project'',
        endpoint = ''/projects/P1'',
        success = (case not_found of
                     Replied r \<Rightarrow> status_code r \<in> {200, 201}
                   | Timed_out msg \<Rightarrow> False
                   | Request_failed msg \<Rightarrow> False),
        error = (case not_found of
                   Replied r \<Rightarrow> None
                 | Timed_out msg \<Rightarrow> Some ''Request timeout after 30s''
                 | Request_failed msg \<Rightarrow> Some (''Request failed: '' @ msg)),
        response_code = (case not_found of
                           Replied r \<Rightarrow> Some (status_code r)
                         | Timed_out msg \<Rightarrow> None
                         | Request_failed msg \<Rightarrow> None)\<rparr>]
     = [\<lparr>timestamp = 12, operation = ''remix'', endpoint = ''/projects/P1/remix'',
          success = True, error = None, response_code = Some 200\<rparr>,
        \<lparr>timestamp = 3000004, operation = ''get_project'', endpoint = ''/projects/P1'',
          success = False, error = None, response_code = Some 404\<rparr>]"
  by (simp add: last_n_def not_found_def verify_times_def)

text \<open>
  Claim C9 as stated fails for the workflow of \<^verbatim>\<open>remix.py\<close>: it verifies the source
  project with a GET before it reaches the gate. In the run below authentication launches
  no browser, the gate denies the second remix of P1 and the workflow returns nothing, yet
  one transport call was issued, the request counter went from 1 to 2 and the audit log
  from one entry to two.
\<close>

theorem verification_call_counterexample:
  "fst second_remix_run = Inr None
   \<and> fst (pre_operation_check (at_breaker second_gate_times) (at_remaining second_gate_times)
            (at_gate_wait second_gate_times) ''yes'' ''remix'' (Some ''P1'') True
            (snd (get_project 3000000 verify_times not_found ''P1'' remixed_manager)))
       = (False, ''Already remixed: N1'')
   \<and> transport_calls remixed_manager = []
   \<and> transport_calls (snd second_remix_run)
       = [Http ''GET'' ''https://api.lovable.dev/projects/P1'' None]
   \<and> requests_today (state remixed_manager) = 1
   \<and> requests_today (state (snd second_remix_run)) = 2
   \<and> length (request_log (state remixed_manager)) = 1
   \<and> length (request_log (state (snd second_remix_run))) = 2"
proof -
  have s: "state remixed_manager = state remixed_manager" by simp
  note g = second_gate_decision [OF s]
  have a: "fst (get_or_refresh_token token_env remixed_manager) = Inr (''token'', None)"
    by (simp add: token_env_auth)
  have t: "\<not> truthy None" by (simp add: truthy_def)
  have d: "\<not> fst (fst (pre_operation_check (at_breaker second_gate_times)
              (at_remaining second_gate_times) (at_gate_wait second_gate_times)
              ''yes'' ''remix'' (Some ''P1'') True
              (snd (get_project 3000000 verify_times not_found ''P1''
                      (snd (get_or_refresh_token token_env remixed_manager))))))"
    by (simp add: token_env_auth g)
  note r = create_remix_denied [OF a t d, of post_times not_found 6000007 False]
  show ?thesis
    unfolding second_remix_run_def r
    by (simp add: token_env_auth g calls_remixed_manager transport_calls_emit
        transport_calls_gate get_project_frame state_emit gate_frame state_remixed_manager)
qed

lemma ui_remix_denied:
  assumes "\<not> fst (fst (pre_operation_check (at_breaker gt) (at_remaining gt) (at_gate_wait gt)
                         answer ''remix'' (Some pid) skip m))"
  shows "ui_remix gt answer session_exists outcome t_request t_trip t_log pid include_history
           skip m =
           (None,
            emit (Say_ui_blocked
                    (snd (fst (pre_operation_check (at_breaker gt) (at_remaining gt)
                                 (at_gate_wait gt) answer ''remix'' (Some pid) skip m))))
              (snd (pre_operation_check (at_breaker gt) (at_remaining gt) (at_gate_wait gt)
                      answer ''remix'' (Some pid) skip m)))"
proof -
  obtain a r m1 where p: "pre_operation_check (at_breaker gt) (at_remaining gt) (at_gate_wait gt)
                           answer ''remix'' (Some pid) skip m = ((a, r), m1)"
    by (metis surj_pair)
  with assms have "\<not> a" by simp
  then show ?thesis by (simp add: ui_remix_def p)
qed

text \<open>
  Claim C9, amended. When the gate denies inside \<^verbatim>\<open>remix_project\<close>, the call returns
  the failed result whose error is "Operation blocked: " followed by the gate's reason,
  issues no transport call, and leaves the request counter, the audit log and the remix
  history as they were. When the gate denies inside \<^verbatim>\<open>ui_remix\<close>, the call returns
  nothing, reports the gate's reason as its last action, launches no browser and issues
  no transport call, and leaves the same three as they were.

  The workflow \<^verbatim>\<open>create_remix\<close> acts before it reaches the gate. Authentication leaves
  the state alone, issues no HTTP call and launches between zero and three browser
  sessions. When authentication returns a token without an error and the gate then
  denies, the workflow returns nothing and reports the blocked text as its last action;
  its transport and UI calls are those of authentication followed by exactly one HTTP
  call, the GET that verifies the source project; that GET is counted as one request and
  recorded with one entry at the end of the audit log, which is cut to its last 100
  entries; the remix itself is never sent, and the remix history and the remix counter
  are unchanged.
\<close>

theorem denial_issues_no_remix_call:
  "(\<not> fst (fst (pre_operation_check (at_breaker gt) (at_remaining gt) (at_gate_wait gt)
                     answer ''remix'' (Some pid) skip m)) \<longrightarrow>
      fst (remix_project gt answer rt reply pid include_history skip m)
        = failed_result
            (''Operation blocked: ''
               @ snd (fst (pre_operation_check (at_breaker gt) (at_remaining gt)
                             (at_gate_wait gt) answer ''remix'' (Some pid) skip m)))
      \<and> transport_calls (snd (remix_project gt answer rt reply pid include_history skip m))
          = transport_calls m
      \<and> requests_today (state (snd (remix_project gt answer rt reply pid include_history skip m)))
          = requests_today (state m)
      \<and> request_log (state (snd (remix_project gt answer rt reply pid include_history skip m)))
          = request_log (state m)
      \<and> remix_history (state (snd (remix_project gt answer rt reply pid include_history skip m)))
          = remix_history (state m))
   \<and> state (snd (get_or_refresh_token env m)) = state m
   \<and> (transport_calls (snd (get_or_refresh_token env m)) = transport_calls m
        \<or> transport_calls (snd (get_or_refresh_token env m))
             = transport_calls m @ [Browser_launch]
        \<or> transport_calls (snd (get_or_refresh_token env m))
             = transport_calls m @ [Browser_launch, Browser_launch]
        \<or> transport_calls (snd (get_or_refresh_token env m))
             = transport_calls m @ [Browser_launch, Browser_launch, Browser_launch])
   \<and> (fst (get_or_refresh_token env m) = Inr (token, auth_error)
        \<and> \<not> truthy auth_error
        \<and> \<not> fst (fst (pre_operation_check (at_breaker gt) (at_remaining gt) (at_gate_wait gt)
                         answer ''remix'' (Some pid) skip
                         (snd (get_project t_wait rt_get reply_get pid
                                 (snd (get_or_refresh_token env m)))))) \<longrightarrow>
        fst (create_remix env t_wait rt_get reply_get gt answer rt reply
               t_result pid include_history skip m) = Inr None
        \<and> last (trace (snd (create_remix env t_wait rt_get reply_get gt answer
                               rt reply t_result pid include_history skip m)))
            = Say_blocked
                (''Operation blocked: ''
                   @ snd (fst (pre_operation_check (at_breaker gt) (at_remaining gt)
                                 (at_gate_wait gt) answer ''remix'' (Some pid) skip
                                 (snd (get_project t_wait rt_get reply_get pid
                                         (snd (get_or_refresh_token env m)))))))
        \<and> transport_calls (snd (create_remix env t_wait rt_get reply_get gt
                                   answer rt reply t_result pid include_history skip m))
            = transport_calls (snd (get_or_refresh_token env m))
                @ [Http ''GET'' (''https://api.lovable.dev/projects/'' @ pid) None]
        \<and> remix_history (state (snd (create_remix env t_wait rt_get reply_get gt
                                        answer rt reply t_result pid include_history skip m)))
            = remix_history (state m)
        \<and> remixes_today (state (snd (create_remix env t_wait rt_get reply_get gt
                                        answer rt reply t_result pid include_history skip m)))
            = remixes_today (state m)
        \<and> requests_today (state (snd (create_remix env t_wait rt_get reply_get gt
                                         answer rt reply t_result pid include_history skip m)))
            = requests_today (state m) + 1
        \<and> request_log (state (snd (create_remix env t_wait rt_get reply_get gt
                                      answer rt reply t_result pid include_history skip m)))
            = last_n 100
                (request_log (state m)
                   @ [\<lparr>timestamp = at_log rt_get, operation = ''get_project'',
                        endpoint = ''/projects/'' @ pid,
                        success = (case reply_get of
                                     Replied r \<Rightarrow> status_code r \<in> {200, 201}
                                   | Timed_out msg \<Rightarrow> False
                                   | Request_failed msg \<Rightarrow> False),
                        error = (case reply_get of
                                   Replied r \<Rightarrow> None
                                 | Timed_out msg \<Rightarrow> Some ''Request timeout after 30s''
                                 | Request_failed msg \<Rightarrow> Some (''Request failed: '' @ msg)),
                        response_code = (case reply_get of
                                           Replied r \<Rightarrow> Some (status_code r)
                                         | Timed_out msg \<Rightarrow> None
                                         | Request_failed msg \<Rightarrow> None)\<rparr>]))
   \<and> (\<not> fst (fst (pre_operation_check (at_breaker gt) (at_remaining gt) (at_gate_wait gt)
                       answer ''remix'' (Some pid) skip m)) \<longrightarrow>
        fst (ui_remix gt answer session_exists outcome t_request t_trip t_log pid
               include_history skip m) = None
        \<and> last (trace (snd (ui_remix gt answer session_exists outcome t_request t_trip t_log pid
                               include_history skip m)))
            = Say_ui_blocked
                (snd (fst (pre_operation_check (at_breaker gt) (at_remaining gt)
                             (at_gate_wait gt) answer ''remix'' (Some pid) skip m)))
        \<and> transport_calls (snd (ui_remix gt answer session_exists outcome t_request t_trip t_log
                                   pid include_history skip m))
            = transport_calls m
        \<and> requests_today (state (snd (ui_remix gt answer session_exists outcome t_request t_trip
                                         t_log pid include_history skip m)))
            = requests_today (state m)
        \<and> request_log (state (snd (ui_remix gt answer session_exists outcome t_request t_trip
                                      t_log pid include_history skip m)))
            = request_log (state m)
        \<and> remix_history (state (snd (ui_remix gt answer session_exists outcome t_request t_trip
                                        t_log pid include_history skip m)))
            = remix_history (state m))"
proof (intro conjI impI)
  assume d: "\<not> fst (fst (pre_operation_check (at_breaker gt) (at_remaining gt) (at_gate_wait gt)
                     answer ''remix'' (Some pid) skip m))"
  note r = remix_project_denied [OF d, of rt reply include_history]
  show "fst (remix_project gt answer rt reply pid include_history skip m)
        = failed_result
            (''Operation blocked: ''
               @ snd (fst (pre_operation_check (at_breaker gt) (at_remaining gt)
                             (at_gate_wait gt) answer ''remix'' (Some pid) skip m)))"
    unfolding r by simp
  show "transport_calls (snd (remix_project gt answer rt reply pid include_history skip m))
          = transport_calls m"
    unfolding r by (simp add: transport_calls_gate)
  show "requests_today (state (snd (remix_project gt answer rt reply pid include_history skip m)))
          = requests_today (state m)"
    unfolding r by (simp add: gate_frame)
  show "request_log (state (snd (remix_project gt answer rt reply pid include_history skip m)))
          = request_log (state m)"
    unfolding r by (simp add: gate_frame)
  show "remix_history (state (snd (remix_project gt answer rt reply pid include_history skip m)))
          = remix_history (state m)"
    unfolding r by (simp add: gate_frame)
next
  show "state (snd (get_or_refresh_token env m)) = state m"
    by (rule auth_frame(1))
next
  show "transport_calls (snd (get_or_refresh_token env m)) = transport_calls m
        \<or> transport_calls (snd (get_or_refresh_token env m))
             = transport_calls m @ [Browser_launch]
        \<or> transport_calls (snd (get_or_refresh_token env m))
             = transport_calls m @ [Browser_launch, Browser_launch]
        \<or> transport_calls (snd (get_or_refresh_token env m))
             = transport_calls m @ [Browser_launch, Browser_launch, Browser_launch]"
    by (rule auth_calls)
next
  assume a: "fst (get_or_refresh_token env m) = Inr (token, auth_error)
        \<and> \<not> truthy auth_error
        \<and> \<not> fst (fst (pre_operation_check (at_breaker gt) (at_remaining gt) (at_gate_wait gt)
                         answer ''remix'' (Some pid) skip
                         (snd (get_project t_wait rt_get reply_get pid
                                 (snd (get_or_refresh_token env m))))))"
  then have a1: "fst (get_or_refresh_token env m) = Inr (token, auth_error)"
    and a2: "\<not> truthy auth_error"
    and a3: "\<not> fst (fst (pre_operation_check (at_breaker gt) (at_remaining gt) (at_gate_wait gt)
                         answer ''remix'' (Some pid) skip
                         (snd (get_project t_wait rt_get reply_get pid
                                 (snd (get_or_refresh_token env m))))))"
    by blast+
  note r = create_remix_denied [OF a1 a2 a3, of rt reply t_result include_history]
  show "fst (create_remix env t_wait rt_get reply_get gt answer rt reply
               t_result pid include_history skip m) = Inr None"
    unfolding r by simp
  show "last (trace (snd (create_remix env t_wait rt_get reply_get gt answer
                               rt reply t_result pid include_history skip m)))
            = Say_blocked
                (''Operation blocked: ''
                   @ snd (fst (pre_operation_check (at_breaker gt) (at_remaining gt)
                                 (at_gate_wait gt) answer ''remix'' (Some pid) skip
                                 (snd (get_project t_wait rt_get reply_get pid
                                         (snd (get_or_refresh_token env m)))))))"
    unfolding r by (simp add: trace_emit)
  show "transport_calls (snd (create_remix env t_wait rt_get reply_get gt
                                   answer rt reply t_result pid include_history skip m))
            = transport_calls (snd (get_or_refresh_token env m))
                @ [Http ''GET'' (''https://api.lovable.dev/projects/'' @ pid) None]"
    unfolding r by (simp add: transport_calls_emit transport_calls_gate get_project_frame)
  show "remix_history (state (snd (create_remix env t_wait rt_get reply_get gt
                                        answer rt reply t_result pid include_history skip m)))
            = remix_history (state m)"
    unfolding r by (simp add: state_emit gate_frame get_project_frame auth_frame)
  show "remixes_today (state (snd (create_remix env t_wait rt_get reply_get gt
                                        answer rt reply t_result pid include_history skip m)))
            = remixes_today (state m)"
    unfolding r by (simp add: state_emit gate_frame get_project_frame auth_frame)
  show "requests_today (state (snd (create_remix env t_wait rt_get reply_get gt
                                         answer rt reply t_result pid include_history skip m)))
            = requests_today (state m) + 1"
    unfolding r by (simp add: state_emit gate_frame get_project_frame auth_frame)
  show "request_log (state (snd (create_remix env t_wait rt_get reply_get gt
                                      answer rt reply t_result pid include_history skip m)))
            = last_n 100
                (request_log (state m)
                   @ [\<lparr>timestamp = at_log rt_get, operation = ''get_project'',
                        endpoint = ''/projects/'' @ pid,
                        success = (case reply_get of
                                     Replied r \<Rightarrow> status_code r \<in> {200, 201}
                                   | Timed_out msg \<Rightarrow> False
                                   | Request_failed msg \<Rightarrow> False),
                        error = (case reply_get of
                                   Replied r \<Rightarrow> None
                                 | Timed_out msg \<Rightarrow> Some ''Request timeout after 30s''
                                 | Request_failed msg \<Rightarrow> Some (''Request failed: '' @ msg)),
                        response_code = (case reply_get of
                                           Replied r \<Rightarrow> Some (status_code r)
                                         | Timed_out msg \<Rightarrow> None
                                         | Request_failed msg \<Rightarrow> None)\<rparr>])"
    unfolding r
    by (simp only: snd_conv state_emit gate_frame request_log_get_project auth_frame(1))
next
  assume d: "\<not> fst (fst (pre_operation_check (at_breaker gt) (at_remaining gt) (at_gate_wait gt)
                       answer ''remix'' (Some pid) skip m))"
  note r = ui_remix_denied [OF d, of session_exists outcome t_request t_trip t_log
      include_history]
  show "fst (ui_remix gt answer session_exists outcome t_request t_trip t_log pid
               include_history skip m) = None"
    unfolding r by simp
  show "last (trace (snd (ui_remix gt answer session_exists outcome t_request t_trip t_log pid
                               include_history skip m)))
            = Say_ui_blocked
                (snd (fst (pre_operation_check (at_breaker gt) (at_remaining gt)
                             (at_gate_wait gt) answer ''remix'' (Some pid) skip m)))"
    unfolding r by (simp add: trace_emit)
  show "transport_calls (snd (ui_remix gt answer session_exists outcome t_request t_trip t_log
                                   pid include_history skip m))
            = transport_calls m"
    unfolding r by (simp add: transport_calls_emit transport_calls_gate)
  show "requests_today (state (snd (ui_remix gt answer session_exists outcome t_request t_trip
                                         t_log pid include_history skip m)))
            = requests_today (state m)"
    unfolding r by (simp add: state_emit gate_frame)
  show "request_log (state (snd (ui_remix gt answer session_exists outcome t_request t_trip
                                      t_log pid include_history skip m)))
            = request_log (state m)"
    unfolding r by (simp add: state_emit gate_frame)
  show "remix_history (state (snd (ui_remix gt answer session_exists outcome t_request t_trip
                                        t_log pid include_history skip m)))
            = remix_history (state m)"
    unfolding r by (simp add: state_emit gate_frame)
qed

lemma first_gate_decision:
  "fst (pre_operation_check (at_breaker second_gate_times) (at_remaining second_gate_times)
          (at_gate_wait second_gate_times) ''yes'' ''remix'' (Some ''P1'') True remixed_manager)
     = (False, ''Already remixed: N1'')"
  by (simp add: gate_decision check_circuit_breaker_def check_daily_limits_def
      check_idempotency_def state_remixed_manager MAX_REMIXES_PER_DAY_def str_opt_def)

lemma state_launches:
  "state (emit Browser_launch m) = state m"
  "transport_calls (emit Browser_launch m) = transport_calls m @ [Browser_launch]"
  by (simp_all add: state_emit transport_calls_emit)

theorem denial_issues_no_remix_call_witness:
  "\<not> fst (fst (pre_operation_check (at_breaker second_gate_times)
                  (at_remaining second_gate_times) (at_gate_wait second_gate_times)
                  ''yes'' ''remix'' (Some ''P1'') True remixed_manager))
   \<and> fst (remix_project second_gate_times ''yes'' post_times not_found ''P1'' False True
            remixed_manager)
       = failed_result ''Operation blocked: Already remixed: N1''
   \<and> transport_calls
        (snd (remix_project second_gate_times ''yes'' post_times not_found ''P1'' False True
                remixed_manager))
       = []
   \<and> fst (get_or_refresh_token token_env remixed_manager) = Inr (''token'', None)
   \<and> \<not> truthy None
   \<and> \<not> fst (fst (pre_operation_check (at_breaker second_gate_times)
                     (at_remaining second_gate_times) (at_gate_wait second_gate_times)
                     ''yes'' ''remix'' (Some ''P1'') True
                     (snd (get_project 3000000 verify_times not_found ''P1''
                             (snd (get_or_refresh_token token_env remixed_manager))))))
   \<and> fst (create_remix token_env 3000000 verify_times not_found second_gate_times ''yes''
            post_times not_found 6000007 ''P1'' False True remixed_manager) = Inr None
   \<and> last (trace (snd (create_remix token_env 3000000 verify_times not_found
                          second_gate_times ''yes'' post_times not_found 6000007 ''P1'' False
                          True remixed_manager)))
       = Say_blocked ''Operation blocked: Already remixed: N1''
   \<and> transport_calls
        (snd (create_remix token_env 3000000 verify_times not_found second_gate_times ''yes''
                post_times not_found 6000007 ''P1'' False True remixed_manager))
       = [Http ''GET'' ''https://api.lovable.dev/projects/P1'' None]
   \<and> requests_today
        (state (snd (create_remix token_env 3000000 verify_times not_found second_gate_times
                       ''yes'' post_times not_found 6000007 ''P1'' False True remixed_manager)))
       = 2
   \<and> request_log
        (state (snd (create_remix token_env 3000000 verify_times not_found second_gate_times
                       ''yes'' post_times not_found 6000007 ''P1'' False True remixed_manager)))
       = [\<lparr>timestamp = 12, operation = ''remix'', endpoint = ''/projects/P1/remix'',
            success = True, error = None, response_code = Some 200\<rparr>,
          \<lparr>timestamp = 3000004, operation = ''get_project'', endpoint = ''/projects/P1'',
            success = False, error = None, response_code = Some 404\<rparr>]
   \<and> transport_calls
        (snd (create_remix session_env 3000000 verify_times not_found second_gate_times ''yes''
                post_times not_found 6000007 ''P1'' False True remixed_manager))
       = [Browser_launch, Http ''GET'' ''https://api.lovable.dev/projects/P1'' None]
   \<and> transport_calls
        (snd (create_remix login_env 3000000 verify_times not_found second_gate_times ''yes''
                post_times not_found 6000007 ''P1'' False True remixed_manager))
       = [Browser_launch, Browser_launch, Browser_launch,
          Http ''GET'' ''https://api.lovable.dev/projects/P1'' None]
   \<and> fst (ui_remix second_gate_times ''yes'' True (New_project ''N2'') 6000004 6000005
            6000006 ''P1'' False True remixed_manager) = None
   \<and> last (trace (snd (ui_remix second_gate_times ''yes'' True (New_project ''N2'') 6000004
                          6000005 6000006 ''P1'' False True remixed_manager)))
       = Say_ui_blocked ''Already remixed: N1''"
  using denial_issues_no_remix_call [where m = remixed_manager
      and gt = second_gate_times and answer = "''yes''" and pid = "''P1''" and skip = True
      and rt = post_times and reply = not_found and include_history = False
      and env = token_env and auth_error = None and token = "''token''" and t_wait = 3000000
      and rt_get = verify_times and reply_get = not_found and t_result = 6000007
      and session_exists = True and outcome = "New_project ''N2''" and t_request = 6000004
      and t_trip = 6000005 and t_log = 6000006]
    denial_issues_no_remix_call [where m = remixed_manager
      and gt = second_gate_times and answer = "''yes''" and pid = "''P1''" and skip = True
      and rt = post_times and reply = not_found and include_history = False
      and env = session_env and auth_error = None and token = "''token''" and t_wait = 3000000
      and rt_get = verify_times and reply_get = not_found and t_result = 6000007
      and session_exists = True and outcome = "New_project ''N2''" and t_request = 6000004
      and t_trip = 6000005 and t_log = 6000006]
    denial_issues_no_remix_call [where m = remixed_manager
      and gt = second_gate_times and answer = "''yes''" and pid = "''P1''" and skip = True
      and rt = post_times and reply = not_found and include_history = False
      and env = login_env and auth_error = None and token = "''token''" and t_wait = 3000000
      and rt_get = verify_times and reply_get = not_found and t_result = 6000007
      and session_exists = True and outcome = "New_project ''N2''" and t_request = 6000004
      and t_trip = 6000005 and t_log = 6000006]
  by (simp add: first_gate_decision second_gate_decision truthy_def token_env_auth
      session_env_auth login_env_auth state_launches calls_remixed_manager
      log_after_verification state_remixed_manager)

text \<open>
  For contrast: when the gate allows, \<^verbatim>\<open>remix_project\<close> sends exactly one POST, and
  \<^verbatim>\<open>ui_remix\<close> launches the browser when the session file exists.
\<close>

lemma transport_calls_record_remix_success:
  "transport_calls (record_remix_success k v m) = transport_calls m"
  by (simp add: record_remix_success_def transport_calls_def save_state_def)

lemma remix_project_allowed_calls:
  assumes "fst (fst (pre_operation_check (at_breaker gt) (at_remaining gt) (at_gate_wait gt)
                      answer ''remix'' (Some pid) skip m))"
  shows "transport_calls (snd (remix_project gt answer rt reply pid include_history skip m))
           = transport_calls m
               @ [Http ''POST'' (''https://api.lovable.dev/projects/'' @ pid @ ''/remix'')
                    (Some [(''include_history'', lower (str_bool include_history))])]"
proof -
  obtain a r m1 where p: "pre_operation_check (at_breaker gt) (at_remaining gt) (at_gate_wait gt)
                           answer ''remix'' (Some pid) skip m = ((a, r), m1)"
    by (metis surj_pair)
  with assms have a: "a" by simp
  have m1: "transport_calls m1 = transport_calls m"
    using transport_calls_gate [of "at_breaker gt" "at_remaining gt" "at_gate_wait gt" answer
        "''remix''" "Some pid" skip m]
    by (simp add: p)
  obtain x m2 where q: "request rt reply ''POST'' (''/projects/'' @ pid @ ''/remix'')
                          (Some [(''include_history'', lower (str_bool include_history))])
                          ''remix'' m1 = (x, m2)"
    by (metis surj_pair)
  have m2: "transport_calls m2
              = transport_calls m
                  @ [Http ''POST'' (''https://api.lovable.dev/projects/'' @ pid @ ''/remix'')
                       (Some [(''include_history'', lower (str_bool include_history))])]"
    using request_frame(1) [of rt reply "''POST''" "''/projects/'' @ pid @ ''/remix''"
        "Some [(''include_history'', lower (str_bool include_history))]" "''remix''" m1]
    unfolding q m1 BASE_URL_def by simp
  show ?thesis
    by (simp add: remix_project_def p q [simplified] a m2 Let_def
        transport_calls_record_remix_success
        split: sum.splits json_body.splits option.splits)
qed

lemma ui_remix_allowed_calls:
  assumes "fst (fst (pre_operation_check (at_breaker gt) (at_remaining gt) (at_gate_wait gt)
                      answer ''remix'' (Some pid) skip m))"
  shows "transport_calls (snd (ui_remix gt answer True outcome t_request t_trip t_log pid
                                 include_history skip m))
           = transport_calls m @ [Browser_launch]"
proof -
  obtain a r m1 where p: "pre_operation_check (at_breaker gt) (at_remaining gt) (at_gate_wait gt)
                           answer ''remix'' (Some pid) skip m = ((a, r), m1)"
    by (metis surj_pair)
  with assms have a: "a" by simp
  have m1: "transport_calls m1 = transport_calls m"
    using transport_calls_gate [of "at_breaker gt" "at_remaining gt" "at_gate_wait gt" answer
        "''remix''" "Some pid" skip m]
    by (simp add: p)
  show ?thesis
    by (cases outcome)
      (simp_all add: ui_remix_def p a Let_def record_request_frame
        transport_calls_record_remix_success transport_calls_emit m1)
qed

end
